theory Spec2Isabelle
  imports Complex_Main
begin

section \<open>JavaScript values\<close>

text \<open>
  Request bodies are parsed JSON and the handlers are duck-typed, so the values the
  handlers see are modelled as they are at run time: \<open>JUndefined\<close> is a property that
  is absent. A number is a double that is \<open>NaN\<close>, infinite or a rational (every
  finite double is one; the handlers only compare numbers and test them, they do no
  arithmetic). A string is a list of code units below 256. An object is the list of its own
  properties, keys distinct. A number too large for a double is parsed as an infinity, so a
  body can hold one; it cannot hold \<open>NaN\<close> or \<open>JUndefined\<close>.
\<close>

datatype jnum = NaN | NegInf | Fin rat | PosInf

datatype js =
    JUndefined
  | JNull
  | JBool bool
  | JNum jnum
  | JStr string
  | JArr "js list"
  | JObj "(string \<times> js) list"

text \<open>ToBoolean: what \<^verbatim>\<open>!v\<close>, \<^verbatim>\<open>v || d\<close> and \<^verbatim>\<open>v ? a : b\<close> test.\<close>

fun truthy :: "js \<Rightarrow> bool" where
  "truthy JUndefined = False"
| "truthy JNull = False"
| "truthy (JBool b) = b"
| "truthy (JNum n) = (n \<noteq> NaN \<and> n \<noteq> Fin 0)"
| "truthy (JStr s) = (s \<noteq> [])"
| "truthy (JArr xs) = True"
| "truthy (JObj kvs) = True"

definition js_or :: "js \<Rightarrow> js \<Rightarrow> js" where
  "js_or a b = (if truthy a then a else b)"

text \<open>A destructuring default \<^verbatim>\<open>{ k = d }\<close> applies to \<^verbatim>\<open>undefined\<close> only.\<close>

definition js_default :: "js \<Rightarrow> js \<Rightarrow> js" where
  "js_default a d = (if a = JUndefined then d else a)"

fun nullish :: "js \<Rightarrow> bool" where
  "nullish JUndefined = True"
| "nullish JNull = True"
| "nullish v = False"

text \<open>
  Reading a property \<^verbatim>\<open>v.k\<close> of a value that is neither \<^verbatim>\<open>null\<close> nor
  \<^verbatim>\<open>undefined\<close> (on those the read throws a TypeError, which every caller below
  tests with \<open>nullish\<close> first). The keys read in this program are no properties of the
  String, Number, Boolean or Array prototypes, so a primitive or an array yields
  \<^verbatim>\<open>undefined\<close>.
\<close>

fun js_get :: "js \<Rightarrow> string \<Rightarrow> js" where
  "js_get (JObj kvs) k = (case map_of kvs k of None \<Rightarrow> JUndefined | Some v \<Rightarrow> v)"
| "js_get v k = JUndefined"

fun isArray :: "js \<Rightarrow> bool" where
  "isArray (JArr xs) = True"
| "isArray v = False"

fun elems :: "js \<Rightarrow> js list" where
  "elems (JArr xs) = xs"
| "elems v = []"

fun is_string :: "js \<Rightarrow> bool" where
  "is_string (JStr s) = True"
| "is_string v = False"

text \<open>
  The characters of a string. The handlers are given it where they have tested
  \<^verbatim>\<open>typeof v === 'string'\<close>.
\<close>

fun chars :: "js \<Rightarrow> string" where
  "chars (JStr s) = s"
| "chars v = []"

subsection \<open>JSON\<close>

text \<open>
  \<^verbatim>\<open>JSON.stringify\<close> followed by \<^verbatim>\<open>JSON.parse\<close>: what a value is once it has been
  written to a file or sent in a response. A number that is not finite is written
  \<^verbatim>\<open>null\<close>, a property that is \<^verbatim>\<open>undefined\<close> is left out, an array element that is
  \<^verbatim>\<open>undefined\<close> is written \<^verbatim>\<open>null\<close>.
\<close>

fun jsonify :: "js \<Rightarrow> js" where
  "jsonify JUndefined = JNull"
| "jsonify JNull = JNull"
| "jsonify (JBool b) = JBool b"
| "jsonify (JNum n) = (case n of Fin x \<Rightarrow> JNum (Fin x) | _ \<Rightarrow> JNull)"
| "jsonify (JStr s) = JStr s"
| "jsonify (JArr xs) = JArr (map jsonify xs)"
| "jsonify (JObj kvs) =
     JObj (map (\<lambda>kv. (fst kv, jsonify (snd kv))) (filter (\<lambda>kv. snd kv \<noteq> JUndefined) kvs))"

text \<open>A number as a JSON file holds it, \<open>None\<close> being \<^verbatim>\<open>null\<close>, and as it is read back.\<close>

definition json_number :: "jnum \<Rightarrow> rat option" where
  "json_number n = (case n of Fin x \<Rightarrow> Some x | _ \<Rightarrow> None)"

definition js_of_number :: "rat option \<Rightarrow> js" where
  "js_of_number x = (case x of None \<Rightarrow> JNull | Some r \<Rightarrow> JNum (Fin r))"

subsection \<open>Numbers\<close>

fun num_ge :: "jnum \<Rightarrow> jnum \<Rightarrow> bool" where
  "num_ge NaN b = False"
| "num_ge a NaN = False"
| "num_ge PosInf b = True"
| "num_ge a NegInf = True"
| "num_ge NegInf b = False"
| "num_ge a PosInf = False"
| "num_ge (Fin x) (Fin y) = (y \<le> x)"

definition num_le :: "jnum \<Rightarrow> jnum \<Rightarrow> bool" where
  "num_le a b = num_ge b a"

fun isInteger :: "jnum \<Rightarrow> bool" where
  "isInteger (Fin x) = (of_int \<lfloor>x\<rfloor> = x)"
| "isInteger n = False"

subsection \<open>Strings\<close>

text \<open>The white space and line terminators that \<^verbatim>\<open>trim\<close> strips and \<^verbatim>\<open>\s\<close> matches.\<close>

definition js_space :: "char \<Rightarrow> bool" where
  "js_space c = (c \<in> set [CHR 0x09, CHR 0x0A, CHR 0x0B, CHR 0x0C, CHR 0x0D, CHR '' '', CHR 0xA0])"

definition trim :: "string \<Rightarrow> string" where
  "trim s = rev (dropWhile js_space (rev (dropWhile js_space s)))"

fun join_comma :: "string list \<Rightarrow> string" where
  "join_comma [] = []"
| "join_comma [s] = s"
| "join_comma (s # t # ss) = s @ '','' @ join_comma (t # ss)"

subsection \<open>The run-time library\<close>

text \<open>
  The library functions the handlers call are no code of this repository: the model takes
  them as parameters. \<open>dateParse\<close> is the time value of \<^verbatim>\<open>new Date(s)\<close> for a string
  (\<open>None\<close> for an invalid date), \<open>jwtVerify\<close> is \<^verbatim>\<open>jwt.verify\<close> at a given clock
  (\<open>None\<close> when it throws: bad signature, malformed or expired token), \<open>jwtDecode\<close> is
  \<^verbatim>\<open>jwt.decode\<close> for a token whose payload is a JSON object (\<open>None\<close> for its
  \<^verbatim>\<open>null\<close>), \<open>bcryptCompare\<close> is \<^verbatim>\<open>bcrypt.compareSync\<close> of two strings (\<open>None\<close> when it
  throws).
\<close>

record runtime =
  numToString :: "jnum \<Rightarrow> string"
  stringToNumber :: "string \<Rightarrow> jnum"
  dateParse :: "string \<Rightarrow> int option"
  toISOString :: "int \<Rightarrow> string"
  jwtSign :: "js \<Rightarrow> int \<Rightarrow> string"
  jwtVerify :: "int \<Rightarrow> string \<Rightarrow> js option"
  jwtDecode :: "string \<Rightarrow> (string \<times> js) list option"
  bcryptHash :: "string \<Rightarrow> string \<Rightarrow> string"
  bcryptCompare :: "string \<Rightarrow> string \<Rightarrow> bool option"

text \<open>What one request draws from the clock and the random generators.\<close>

record env =
  now :: int
  uuidv4 :: "nat \<Rightarrow> string"
  genSalt :: string

text \<open>
  \<^verbatim>\<open>String(v)\<close>, \<open>None\<close> when it throws a TypeError. An object is converted by its
  \<^verbatim>\<open>toString\<close>; that is the one of \<^verbatim>\<open>Object.prototype\<close> unless the object has a property
  of that name of its own, and a property parsed from JSON is no function: the conversion
  then finds nothing to call (\<^verbatim>\<open>valueOf\<close> gives no primitive either). An array joins its
  elements, \<^verbatim>\<open>null\<close> and \<^verbatim>\<open>undefined\<close> as empty, and throws when one of them does.
\<close>

fun js_String :: "runtime \<Rightarrow> js \<Rightarrow> string option" where
  "js_String rt JUndefined = Some ''undefined''"
| "js_String rt JNull = Some ''null''"
| "js_String rt (JBool b) = Some (if b then ''true'' else ''false'')"
| "js_String rt (JNum n) = Some (numToString rt n)"
| "js_String rt (JStr s) = Some s"
| "js_String rt (JArr xs) =
     map_option join_comma (those (map (\<lambda>x. if nullish x then Some [] else js_String rt x) xs))"
| "js_String rt (JObj kvs) =
     (if ''toString'' \<in> set (map fst kvs) then None else Some ''[object Object]'')"

text \<open>
  \<^verbatim>\<open>Number(v)\<close>, \<open>None\<close> when it throws: an array or an object is converted to its
  string first (their \<^verbatim>\<open>valueOf\<close> gives no primitive).
\<close>

fun js_Number :: "runtime \<Rightarrow> js \<Rightarrow> jnum option" where
  "js_Number rt JUndefined = Some NaN"
| "js_Number rt JNull = Some (Fin 0)"
| "js_Number rt (JBool b) = Some (if b then Fin 1 else Fin 0)"
| "js_Number rt (JNum n) = Some n"
| "js_Number rt v = map_option (stringToNumber rt) (js_String rt v)"

section \<open>server.js: the file-based backend\<close>

subsection \<open>Stored data\<close>

text \<open>
  The records of users.json and elections.json, as the files hold them: every handler
  reads the file, and what it writes is the JSON of the objects it has built. So an email
  or a phone is a string or \<^verbatim>\<open>null\<close> (\<open>None\<close>), an optional profile field that was
  \<^verbatim>\<open>undefined\<close> is absent (\<open>JUndefined\<close>, \<open>None\<close> for the Aadhaar string), a number is
  kept as \<open>json_number\<close> gives it and any other value as \<open>jsonify\<close> gives it. audit.log is
  the list of its lines: a time and a text.
\<close>

record user =
  u_id :: string
  u_name :: string
  u_email :: "string option"
  u_phone :: "string option"
  u_password_hash :: string
  u_created_at :: int
  u_age :: js
  u_aadhar :: "string option"
  u_gender :: js
  u_isAdmin :: bool

record candidate =
  c_id :: string
  c_name :: string
  c_description :: js
  c_party :: js
  c_manifesto :: js
  c_votes :: int

record election =
  e_id :: string
  e_companyName :: string
  e_totalSeats :: "rat option"
  e_description :: string
  e_start_ts :: "rat option"
  e_end_ts :: "rat option"
  e_created_by :: string
  e_created_at :: int
  e_candidates :: "candidate list"

record store =
  users :: "user list"
  elections :: "election list"
  audit_log :: "(int \<times> string) list"

definition audit :: "int \<Rightarrow> string \<Rightarrow> store \<Rightarrow> store" where
  "audit ts line st = st\<lparr>audit_log := audit_log st @ [(ts, line)]\<rparr>"

subsection \<open>Requests and responses\<close>

record request =
  authorization :: "string option"
  body :: js

record response =
  status :: nat
  json :: js

definition err :: "nat \<Rightarrow> string \<Rightarrow> response" where
  "err code msg = \<lparr>status = code, json = JObj [(''error'', JStr msg)]\<rparr>"

text \<open>
  \<^verbatim>\<open>res.status(code).json(v)\<close>: the body sent is \<^verbatim>\<open>JSON.stringify(v)\<close>, and the response
  holds the value that this text denotes.
\<close>

definition send :: "nat \<Rightarrow> js \<Rightarrow> response" where
  "send code v = \<lparr>status = code, json = jsonify v\<rparr>"

text \<open>\<^verbatim>\<open>req.body || {}\<close>, and one destructured field of it.\<close>

definition field :: "request \<Rightarrow> string \<Rightarrow> js" where
  "field req k = js_get (js_or (body req) (JObj [])) k"

subsection \<open>Validation helpers\<close>

text \<open>
  \<^verbatim>\<open>/^[^\s@]+@[^\s@]+\.[^\s@]+$/\<close>: a local part, one \<^verbatim>\<open>@\<close>, and a rest holding a dot
  that is neither its first nor its last character, nothing of it white space or \<^verbatim>\<open>@\<close>.
\<close>

definition email_char :: "char \<Rightarrow> bool" where
  "email_char c = (\<not> js_space c \<and> c \<noteq> CHR ''@'')"

definition email_regex :: "string \<Rightarrow> bool" where
  "email_regex s =
     (let a = takeWhile email_char s; r = dropWhile email_char s
      in a \<noteq> [] \<and> r \<noteq> [] \<and> hd r = CHR ''@'' \<and> list_all email_char (tl r) \<and>
         list_ex (\<lambda>i. tl r ! i = CHR ''.'') [1 ..< length (tl r) - 1])"

text \<open>\<^verbatim>\<open>/^[+\d][\d\s\-]{6,20}$/\<close>.\<close>

definition digit :: "char \<Rightarrow> bool" where
  "digit c = (c \<in> set ''0123456789'')"

definition phone_regex :: "string \<Rightarrow> bool" where
  "phone_regex s =
     (case s of
        [] \<Rightarrow> False
      | c # r \<Rightarrow> (c = CHR ''+'' \<or> digit c) \<and> 6 \<le> length r \<and> length r \<le> 20 \<and>
          list_all (\<lambda>x. digit x \<or> js_space x \<or> x = CHR ''-'') r)"

text \<open>
  \<^verbatim>\<open>RegExp.prototype.test\<close> converts its argument with \<^verbatim>\<open>String\<close>, which can throw
  (\<open>None\<close>); a falsy argument is not tested.
\<close>

definition isValidEmail :: "runtime \<Rightarrow> js \<Rightarrow> bool option" where
  "isValidEmail rt e = (if truthy e then map_option email_regex (js_String rt e) else Some False)"

definition isValidPhone :: "runtime \<Rightarrow> js \<Rightarrow> bool option" where
  "isValidPhone rt p = (if truthy p then map_option phone_regex (js_String rt p) else Some False)"

subsection \<open>Auth helpers\<close>

definition signTokenForUser :: "runtime \<Rightarrow> int \<Rightarrow> user \<Rightarrow> string" where
  "signTokenForUser rt t u =
     jwtSign rt
       (JObj [(''id'', JStr (u_id u)),
              (''name'', js_or (JStr (u_name u)) (JStr [])),
              (''email'', case u_email u of None \<Rightarrow> JStr [] | Some e \<Rightarrow> js_or (JStr e) (JStr [])),
              (''phone'', case u_phone u of None \<Rightarrow> JStr [] | Some p \<Rightarrow> js_or (JStr p) (JStr []))])
       t"

text \<open>
  A header that is absent, empty or does not start with \<^verbatim>\<open>Bearer \<close>, a token that
  \<^verbatim>\<open>jwt.verify\<close> rejects and a payload whose \<^verbatim>\<open>id\<close> is no stored user's all give
  \<^verbatim>\<open>null\<close>. A \<^verbatim>\<open>null\<close> payload makes \<^verbatim>\<open>data.id\<close> throw inside the \<^verbatim>\<open>try\<close>.
\<close>

definition getUserFromAuthHeader :: "runtime \<Rightarrow> int \<Rightarrow> store \<Rightarrow> request \<Rightarrow> user option" where
  "getUserFromAuthHeader rt t st req =
     (case authorization req of
        None \<Rightarrow> None
      | Some auth \<Rightarrow>
          if auth = [] \<or> take 7 auth \<noteq> ''Bearer '' then None
          else (case jwtVerify rt t (drop 7 auth) of
                  None \<Rightarrow> None
                | Some data \<Rightarrow>
                    if nullish data then None
                    else find (\<lambda>u. JStr (u_id u) = js_get data ''id'') (users st)))"

text \<open>The guards answer the request themselves when they fail: \<open>Inl\<close> is that answer.\<close>

definition requireAuth :: "runtime \<Rightarrow> int \<Rightarrow> store \<Rightarrow> request \<Rightarrow> response + user" where
  "requireAuth rt t st req =
     (case getUserFromAuthHeader rt t st req of
        None \<Rightarrow> Inl (err 401 ''Missing or invalid token'')
      | Some u \<Rightarrow> Inr u)"

definition requireAdmin :: "runtime \<Rightarrow> int \<Rightarrow> store \<Rightarrow> request \<Rightarrow> response + user" where
  "requireAdmin rt t st req =
     (case getUserFromAuthHeader rt t st req of
        None \<Rightarrow> Inl (err 401 ''Missing or invalid token'')
      | Some u \<Rightarrow> if \<not> u_isAdmin u then Inl (err 403 ''Admin access required'') else Inr u)"

subsection \<open>Routes: users\<close>

text \<open>
  \<^verbatim>\<open>v.trim()\<close> on a truthy value: a TypeError (\<open>None\<close>) unless \<open>v\<close> is a string.
  \<open>blank v\<close> is \<^verbatim>\<open>(!v || v.trim() === '')\<close>.
\<close>

fun js_trim :: "js \<Rightarrow> string option" where
  "js_trim (JStr s) = Some (trim s)"
| "js_trim v = None"

definition blank :: "js \<Rightarrow> bool option" where
  "blank v = (if \<not> truthy v then Some True else map_option (\<lambda>t. t = []) (js_trim v))"

definition both_blank :: "js \<Rightarrow> js \<Rightarrow> bool option" where
  "both_blank email phone =
     (case blank email of
        None \<Rightarrow> None
      | Some False \<Rightarrow> Some False
      | Some True \<Rightarrow> blank phone)"

text \<open>
  The checks of \<^verbatim>\<open>POST /api/register\<close> that come before the store is read, in the
  order of the source; \<open>None\<close> when all pass. A throw is caught by the handler and
  answered 500: \<^verbatim>\<open>.trim()\<close> of an email or a phone that is no string, and the regular
  expression's conversion of a phone that has no string.
\<close>

definition register_checks :: "runtime \<Rightarrow> request \<Rightarrow> response option" where
  "register_checks rt req =
     (let name = field req ''name''; email = field req ''email''; phone = field req ''phone'';
          password = field req ''password''
      in if \<not> truthy name \<or> \<not> is_string name \<or> length (trim (chars name)) < 2
         then Some (err 400 ''Name is required and must be at least 2 characters.'')
         else if \<not> truthy password \<or> \<not> is_string password \<or> length (chars password) < 6
         then Some (err 400 ''Password is required and must be at least 6 characters.'')
         else (case both_blank email phone of
                 None \<Rightarrow> Some (err 500 ''Internal server error'')
               | Some True \<Rightarrow> Some (err 400 ''Either email or phone is required.'')
               | Some False \<Rightarrow>
                   (case (if truthy email then isValidEmail rt email else Some True) of
                      None \<Rightarrow> Some (err 500 ''Internal server error'')
                    | Some False \<Rightarrow> Some (err 400 ''Invalid email format.'')
                    | Some True \<Rightarrow>
                        (case (if truthy phone then isValidPhone rt phone else Some True) of
                           None \<Rightarrow> Some (err 500 ''Internal server error'')
                         | Some False \<Rightarrow> Some (err 400 ''Invalid phone format.'')
                         | Some True \<Rightarrow> None))))"

text \<open>
  \<^verbatim>\<open>email ? email.trim() : null\<close>, and the same for the phone. A truthy phone that is
  no string passes the checks above when the email is not blank and the phone's string
  matches; its \<^verbatim>\<open>phone.trim()\<close> then throws, in the lookup or (the store empty) when the
  record is built, before anything is written.
\<close>

definition trimmed :: "js \<Rightarrow> string option option" where
  "trimmed v = (if truthy v then map_option Some (js_trim v) else Some None)"

text \<open>
  The user record, \<open>None\<close> when building it throws: \<^verbatim>\<open>Number(age)\<close> and
  \<^verbatim>\<open>String(aadhar)\<close> can. The name and the password are strings by then.
\<close>

definition new_user ::
  "runtime \<Rightarrow> env \<Rightarrow> request \<Rightarrow> string option \<Rightarrow> string option \<Rightarrow> user option" where
  "new_user rt ev req email phone =
     (let age = field req ''age''; aadhar = field req ''aadhar''; gender = field req ''gender''
      in case (if truthy age then map_option (\<lambda>n. js_of_number (json_number n)) (js_Number rt age)
               else Some JUndefined) of
           None \<Rightarrow> None
         | Some stored_age \<Rightarrow>
             (case (if truthy aadhar then map_option Some (js_String rt aadhar) else Some None) of
                None \<Rightarrow> None
              | Some stored_aadhar \<Rightarrow>
                  Some \<lparr>u_id = uuidv4 ev 0,
                        u_name = trim (chars (field req ''name'')),
                        u_email = email,
                        u_phone = phone,
                        u_password_hash =
                          bcryptHash rt (chars (field req ''password'')) (genSalt ev),
                        u_created_at = now ev,
                        u_age = stored_age,
                        u_aadhar = stored_aadhar,
                        u_gender = (if truthy gender then jsonify gender else JUndefined),
                        u_isAdmin = False\<rparr>))"

definition register :: "runtime \<Rightarrow> env \<Rightarrow> store \<Rightarrow> request \<Rightarrow> response \<times> store" where
  "register rt ev st req =
     (case register_checks rt req of
        Some r \<Rightarrow> (r, st)
      | None \<Rightarrow>
          (case trimmed (field req ''email'') of
             None \<Rightarrow> (err 500 ''Internal server error'', st)
           | Some email \<Rightarrow>
               if email \<noteq> None \<and> find (\<lambda>u. u_email u = email) (users st) \<noteq> None
               then (err 409 ''Email already registered.'', st)
               else (case trimmed (field req ''phone'') of
                       None \<Rightarrow> (err 500 ''Internal server error'', st)
                     | Some phone \<Rightarrow>
                         if phone \<noteq> None \<and> find (\<lambda>u. u_phone u = phone) (users st) \<noteq> None
                         then (err 409 ''Phone already registered.'', st)
                         else (case new_user rt ev req email phone of
                                 None \<Rightarrow> (err 500 ''Internal server error'', st)
                               | Some u \<Rightarrow>
                                   (send 201
                                      (JObj [(''message'', JStr ''User registered successfully''),
                                             (''userId'', JStr (u_id u))]),
                                    audit (now ev) (''register | user:'' @ u_id u)
                                      (st\<lparr>users := users st @ [u]\<rparr>))))))"

text \<open>A stored email or phone as the value \<^verbatim>\<open>===\<close> compares: a string or \<^verbatim>\<open>null\<close>.\<close>

definition js_of_opt :: "string option \<Rightarrow> js" where
  "js_of_opt x = (case x of None \<Rightarrow> JNull | Some s \<Rightarrow> JStr s)"

text \<open>
  \<^verbatim>\<open>bcrypt.compareSync(s, hash)\<close>: bcryptjs throws \<^verbatim>\<open>Illegal arguments\<close> unless both
  arguments are strings; the stored hash is one.
\<close>

definition compareSync :: "runtime \<Rightarrow> js \<Rightarrow> string \<Rightarrow> bool option" where
  "compareSync rt s hash = (case s of JStr p \<Rightarrow> bcryptCompare rt p hash | _ \<Rightarrow> None)"

definition login :: "runtime \<Rightarrow> env \<Rightarrow> store \<Rightarrow> request \<Rightarrow> response \<times> store" where
  "login rt ev st req =
     (let identifier = field req ''identifier''; password = field req ''password''
      in if \<not> truthy identifier \<or> \<not> truthy password
         then (err 400 ''identifier and password are required'', st)
         else (case find (\<lambda>u. js_of_opt (u_email u) = identifier \<or>
                               js_of_opt (u_phone u) = identifier)
                      (users st) of
                 None \<Rightarrow> (err 401 ''Invalid credentials'', st)
               | Some u \<Rightarrow>
                   (case compareSync rt password (u_password_hash u) of
                      None \<Rightarrow> (err 500 ''Internal server error'', st)
                    | Some ok \<Rightarrow>
                        if \<not> ok then (err 401 ''Invalid credentials'', st)
                        else (send 200
                                (JObj [(''message'', JStr ''Authenticated''),
                                       (''token'', JStr (signTokenForUser rt (now ev) u))]),
                              audit (now ev) (''login | user:'' @ u_id u) st))))"

definition me :: "runtime \<Rightarrow> env \<Rightarrow> store \<Rightarrow> request \<Rightarrow> response" where
  "me rt ev st req =
     (case getUserFromAuthHeader rt (now ev) st req of
        None \<Rightarrow> err 401 ''Missing or invalid token''
      | Some u \<Rightarrow>
          send 200
            (JObj [(''user'',
               JObj [(''id'', JStr (u_id u)), (''name'', JStr (u_name u)),
                     (''email'', js_of_opt (u_email u)), (''phone'', js_of_opt (u_phone u)),
                     (''isAdmin'', JBool (u_isAdmin u))])]))"

subsection \<open>Routes: elections\<close>

text \<open>A stored candidate and a stored election as the objects read from the file.\<close>

definition candidate_js :: "candidate \<Rightarrow> js" where
  "candidate_js c =
     JObj [(''id'', JStr (c_id c)), (''name'', JStr (c_name c)),
           (''description'', c_description c), (''party'', c_party c),
           (''manifesto'', c_manifesto c), (''votes'', JNum (Fin (of_int (c_votes c))))]"

definition election_js :: "election \<Rightarrow> js" where
  "election_js e =
     JObj [(''id'', JStr (e_id e)), (''companyName'', JStr (e_companyName e)),
           (''totalSeats'', js_of_number (e_totalSeats e)),
           (''description'', JStr (e_description e)),
           (''start_ts'', js_of_number (e_start_ts e)), (''end_ts'', js_of_number (e_end_ts e)),
           (''created_by'', JStr (e_created_by e)),
           (''created_at'', JNum (Fin (of_int (e_created_at e)))),
           (''candidates'', JArr (map candidate_js (e_candidates e)))]"

text \<open>
  \<^verbatim>\<open>parseToNumber\<close>: a number as it is, anything else through \<^verbatim>\<open>new Date(String(v))\<close>,
  an invalid date being \<^verbatim>\<open>NaN\<close>; \<open>None\<close> when \<^verbatim>\<open>String(v)\<close> throws.
\<close>

definition parseToNumber :: "runtime \<Rightarrow> js \<Rightarrow> jnum option" where
  "parseToNumber rt v =
     (case v of
        JNum n \<Rightarrow> Some n
      | _ \<Rightarrow> map_option (\<lambda>s. case dateParse rt s of None \<Rightarrow> NaN | Some t \<Rightarrow> Fin (of_int t))
               (js_String rt v))"

text \<open>
  Line 279: \<^verbatim>\<open>s\<close>, \<^verbatim>\<open>e\<close> and \<^verbatim>\<open>seats\<close> are all computed before any of them is tested;
  \<open>None\<close> when one of the three conversions throws.
\<close>

definition normalized :: "runtime \<Rightarrow> js \<Rightarrow> js \<Rightarrow> js \<Rightarrow> (jnum \<times> jnum \<times> jnum) option" where
  "normalized rt start_ts end_ts totalSeats =
     (case parseToNumber rt start_ts of
        None \<Rightarrow> None
      | Some s \<Rightarrow>
          (case parseToNumber rt end_ts of
             None \<Rightarrow> None
           | Some e \<Rightarrow> map_option (\<lambda>seats. (s, e, seats)) (js_Number rt totalSeats)))"

text \<open>
  One element of \<^verbatim>\<open>candidates.map\<close>, with the identifier drawn for it; \<open>None\<close> when it
  throws: \<^verbatim>\<open>c.name\<close> of \<^verbatim>\<open>null\<close>, or \<^verbatim>\<open>String\<close> of the name.
\<close>

definition mk_candidate :: "runtime \<Rightarrow> string \<Rightarrow> js \<Rightarrow> candidate option" where
  "mk_candidate rt i c =
     (if nullish c then None
      else map_option
             (\<lambda>name. \<lparr>c_id = i,
                       c_name = trim name,
                       c_description = jsonify (js_or (js_get c ''description'') (JStr [])),
                       c_party = jsonify (js_or (js_get c ''party'') (JStr [])),
                       c_manifesto = jsonify (js_or (js_get c ''manifesto'') (JStr [])),
                       c_votes = 0\<rparr>)
             (js_String rt (js_or (js_get c ''name'') (JStr []))))"

text \<open>
  The election object, as it is written to the file, \<open>None\<close> when building it throws. The
  election's identifier is the first one drawn, the candidates' the following ones in the
  order of the array.
\<close>

definition mk_election ::
  "runtime \<Rightarrow> env \<Rightarrow> user \<Rightarrow> request \<Rightarrow> jnum \<Rightarrow> jnum \<Rightarrow> jnum \<Rightarrow> election option" where
  "mk_election rt ev authUser req s e seats =
     (let cs = elems (js_default (field req ''candidates'') (JArr []))
      in case js_String rt (field req ''companyName'') of
           None \<Rightarrow> None
         | Some companyName \<Rightarrow>
             (case js_String rt
                     (js_or (js_default (field req ''description'') (JStr [])) (JStr [])) of
                None \<Rightarrow> None
              | Some description \<Rightarrow>
                  (case those (map2 (mk_candidate rt) (map (uuidv4 ev) [1 ..< Suc (length cs)])
                                 cs) of
                     None \<Rightarrow> None
                   | Some candidates \<Rightarrow>
                       Some \<lparr>e_id = uuidv4 ev 0,
                             e_companyName = trim companyName,
                             e_totalSeats = json_number seats,
                             e_description = description,
                             e_start_ts = json_number s,
                             e_end_ts = json_number e,
                             e_created_by = u_id authUser,
                             e_created_at = now ev,
                             e_candidates = candidates\<rparr>)))"

text \<open>
  \<^verbatim>\<open>POST /api/elections\<close>. Whatever is thrown after the caller is resolved is caught
  and answered 500, before anything is saved. The answer 201 carries the object that was
  built; its JSON is that of the record written.
\<close>

definition createElection :: "runtime \<Rightarrow> env \<Rightarrow> store \<Rightarrow> request \<Rightarrow> response \<times> store" where
  "createElection rt ev st req =
     (case requireAuth rt (now ev) st req of
        Inl r \<Rightarrow> (r, st)
      | Inr authUser \<Rightarrow>
          (let companyName = field req ''companyName''; totalSeats = field req ''totalSeats'';
               start_ts = field req ''start_ts''; end_ts = field req ''end_ts'';
               candidates = js_default (field req ''candidates'') (JArr [])
           in if \<not> truthy companyName \<or> \<not> truthy totalSeats \<or> \<not> truthy start_ts \<or> \<not> truthy end_ts \<or>
                 \<not> isArray candidates \<or> length (elems candidates) = 0
              then
                (err 400
                ''companyName, totalSeats, start_ts, end_ts and at least one candidate are required'', st)
              else (case normalized rt start_ts end_ts totalSeats of
                      None \<Rightarrow> (err 500 ''Server error'', st)
                    | Some (s, e, seats) \<Rightarrow>
                        if s = NaN \<or> e = NaN \<or> num_ge s e
                        then (err 400 ''Invalid start/end timestamps'', st)
                        else if \<not> isInteger seats \<or> num_le seats (Fin 0)
                        then (err 400 ''totalSeats must be a positive integer'', st)
                        else (case mk_election rt ev authUser req s e seats of
                                None \<Rightarrow> (err 500 ''Server error'', st)
                              | Some election \<Rightarrow>
                                  (send 201
                                     (JObj [(''success'', JBool True),
                                            (''election'', election_js election)]),
                                   audit (now ev)
                                     (''create-election | user:'' @ u_id authUser @
                                      '' | election:'' @ e_id election)
                                     (st\<lparr>elections := elections st @ [election]\<rparr>))))))"

text \<open>\<^verbatim>\<open>GET /api/elections\<close>: the public summary.\<close>

definition summary_js :: "election \<Rightarrow> js" where
  "summary_js e =
     JObj [(''id'', JStr (e_id e)), (''companyName'', JStr (e_companyName e)),
           (''totalSeats'', js_of_number (e_totalSeats e)),
           (''start_ts'', js_of_number (e_start_ts e)), (''end_ts'', js_of_number (e_end_ts e)),
           (''description'', JStr (e_description e))]"

definition listElections :: "store \<Rightarrow> response" where
  "listElections st = send 200 (JObj [(''elections'', JArr (map summary_js (elections st)))])"

text \<open>\<^verbatim>\<open>GET /api/elections/:id\<close>.\<close>

definition getElection :: "store \<Rightarrow> string \<Rightarrow> response" where
  "getElection st i =
     (case find (\<lambda>x. e_id x = i) (elections st) of
        None \<Rightarrow> err 404 ''Election not found''
      | Some e \<Rightarrow> send 200 (JObj [(''election'', election_js e)]))"

text \<open>\<^verbatim>\<open>GET /api/elections/:id/candidates\<close>.\<close>

definition candidate_summary_js :: "candidate \<Rightarrow> js" where
  "candidate_summary_js c =
     JObj [(''id'', JStr (c_id c)), (''name'', JStr (c_name c)),
           (''description'', c_description c),
           (''party'', js_or (c_party c) (JStr [])),
           (''manifesto'', js_or (c_manifesto c) (JStr []))]"

definition getCandidates :: "store \<Rightarrow> string \<Rightarrow> response" where
  "getCandidates st i =
     (case find (\<lambda>x. e_id x = i) (elections st) of
        None \<Rightarrow> err 404 ''Election not found''
      | Some e \<Rightarrow>
          send 200
            (JObj [(''electionId'', JStr (e_id e)),
                   (''candidates'', JArr (map candidate_summary_js (e_candidates e)))]))"

section \<open>The short-id routes (elections.db.js)\<close>

subsection \<open>The database module\<close>

text \<open>
  The routes call a module \<^verbatim>\<open>./elections.db\<close> that is not among the sources (the file
  of the routes is headed \<^verbatim>\<open>elections.routes.js\<close>). Its tables are modelled as lists of
  rows, in insertion order.
\<close>

record election_row =
  r_id :: string
  r_title :: js
  r_description :: js
  r_start_at :: string
  r_end_at :: string
  r_eligibility :: js
  r_publish :: nat
  r_created_by :: js
  r_created_at :: string

record candidate_row =
  cr_rowid :: nat
  cr_election_id :: string
  cr_name :: string
  cr_party :: js
  cr_manifesto :: js

record db =
  db_elections :: "election_row list"
  db_candidates :: "candidate_row list"

text \<open>
  Modelled from the spec: \<^verbatim>\<open>db.electionExists\<close>, which is missing from the sources.
  The registry is asked whether an election of that id is stored (\<open>queryById\<close>).
\<close>

definition electionExists :: "db \<Rightarrow> string \<Rightarrow> bool" where
  "electionExists d i = (i \<in> set (map r_id (db_elections d)))"

text \<open>
  Modelled from the spec: \<^verbatim>\<open>db.insertElection\<close>, which is missing from the sources
  (\<open>insert(table, row)\<close>).
\<close>

definition insertElection :: "db \<Rightarrow> election_row \<Rightarrow> db" where
  "insertElection d r = d\<lparr>db_elections := db_elections d @ [r]\<rparr>"

text \<open>
  Modelled from the spec: \<^verbatim>\<open>db.insertCandidate\<close>, which is missing from the sources
  (\<open>insert(table, row) \<rightarrow> generatedId\<close>; the id is a registry-assigned sequence number,
  and no row is ever deleted). It returns the new table and \<^verbatim>\<open>lastInsertRowid\<close>.
\<close>

definition insertCandidate :: "db \<Rightarrow> string \<Rightarrow> string \<Rightarrow> js \<Rightarrow> js \<Rightarrow> db \<times> nat" where
  "insertCandidate d election_id name party manifesto =
     (let rid = Suc (length (db_candidates d))
      in (d\<lparr>db_candidates := db_candidates d @
              [\<lparr>cr_rowid = rid, cr_election_id = election_id, cr_name = name,
                cr_party = party, cr_manifesto = manifesto\<rparr>]\<rparr>, rid))"

text \<open>
  Modelled from the spec: \<^verbatim>\<open>db.getCandidatesByElectionId\<close> and \<^verbatim>\<open>db.getElectionById\<close>,
  which are missing from the sources (\<open>queryById(table, id) \<rightarrow> row | none\<close>; the full
  record includes the candidates).
\<close>

definition getCandidatesByElectionId :: "db \<Rightarrow> string \<Rightarrow> candidate_row list" where
  "getCandidatesByElectionId d i = filter (\<lambda>c. cr_election_id c = i) (db_candidates d)"

definition getElectionById :: "db \<Rightarrow> string \<Rightarrow> (election_row \<times> candidate_row list) option" where
  "getElectionById d i =
     map_option (\<lambda>r. (r, getCandidatesByElectionId d i)) (find (\<lambda>r. r_id r = i) (db_elections d))"

text \<open>
  Modelled from the spec: the objects that the two lookups give back, which the missing
  module builds (a candidate with its id, name, party and manifesto; the full election
  record with its candidates).
\<close>

definition candidate_row_js :: "candidate_row \<Rightarrow> js" where
  "candidate_row_js c =
     JObj [(''id'', JNum (Fin (of_nat (cr_rowid c)))), (''election_id'', JStr (cr_election_id c)),
           (''name'', JStr (cr_name c)), (''party'', cr_party c), (''manifesto'', cr_manifesto c)]"

definition election_row_js :: "election_row \<times> candidate_row list \<Rightarrow> js" where
  "election_row_js rc =
     (case rc of (r, cs) \<Rightarrow>
        JObj [(''id'', JStr (r_id r)), (''title'', r_title r), (''description'', r_description r),
              (''start_at'', JStr (r_start_at r)), (''end_at'', JStr (r_end_at r)),
              (''eligibility'', r_eligibility r), (''publish'', JNum (Fin (of_nat (r_publish r)))),
              (''created_by'', r_created_by r), (''created_at'', JStr (r_created_at r)),
              (''candidates'', JArr (map candidate_row_js cs))])"

subsection \<open>Helpers\<close>

text \<open>\<^verbatim>\<open>uuidv4().replace(/-/g, '').slice(0, 10)\<close>, of the identifier drawn.\<close>

definition generateShortId :: "string \<Rightarrow> string" where
  "generateShortId u = take 10 (filter (\<lambda>c. c \<noteq> CHR ''-'') u)"

text \<open>
  The header is decoded, not verified. Node stores header names in lower case, so the second
  lookup of the source finds nothing the first did not.
\<close>

definition getUserFromAuthHeaderB :: "runtime \<Rightarrow> request \<Rightarrow> (string \<times> js) list option" where
  "getUserFromAuthHeaderB rt req =
     (case authorization req of
        None \<Rightarrow> None
      | Some auth \<Rightarrow>
          if auth = [] \<or> take 7 auth \<noteq> ''Bearer '' then None else jwtDecode rt (drop 7 auth))"

text \<open>
  \<^verbatim>\<open>new Date(v)\<close> as its time value, \<open>Some None\<close> for an invalid date and \<open>None\<close> when
  the constructor throws: a number is clipped to the range of dates and truncated, a string
  is parsed, an array or object is parsed as its string, and its conversion to a string can
  throw.
\<close>

definition timeClip :: "jnum \<Rightarrow> int option" where
  "timeClip n =
     (case n of
        Fin x \<Rightarrow> if \<bar>x\<bar> \<le> 8640000000000000 then Some (if 0 \<le> x then \<lfloor>x\<rfloor> else \<lceil>x\<rceil>) else None
      | _ \<Rightarrow> None)"

fun newDate :: "runtime \<Rightarrow> js \<Rightarrow> int option option" where
  "newDate rt (JNum n) = Some (timeClip n)"
| "newDate rt (JStr s) = Some (dateParse rt s)"
| "newDate rt (JBool b) = Some (Some (if b then 1 else 0))"
| "newDate rt JNull = Some (Some 0)"
| "newDate rt JUndefined = Some None"
| "newDate rt v = map_option (dateParse rt) (js_String rt v)"

text \<open>\<^verbatim>\<open>a >= b\<close> on dates compares the time values; an invalid date compares false.\<close>

definition date_ge :: "int option \<Rightarrow> int option \<Rightarrow> bool" where
  "date_ge a b = (case (a, b) of (Some x, Some y) \<Rightarrow> y \<le> x | _ \<Rightarrow> False)"

subsection \<open>\<^verbatim>\<open>POST /api/elections\<close>\<close>

text \<open>
  The retry loop: \<open>gen k\<close> is the identifier of the \<open>k\<close>-th call of
  \<^verbatim>\<open>generateShortId\<close> after the first. It returns the identifier and the retries made.
\<close>

function alloc_loop :: "db \<Rightarrow> (nat \<Rightarrow> string) \<Rightarrow> string \<Rightarrow> nat \<Rightarrow> string \<times> nat" where
  "alloc_loop d gen electionId tries =
     (if electionExists d electionId \<and> tries < 6
      then alloc_loop d gen (gen (Suc tries)) (Suc tries)
      else (electionId, tries))"
  by pat_completeness auto
termination
  by (relation "measure (\<lambda>(d, gen, electionId, tries). 6 - tries)") auto

declare alloc_loop.simps [simp del]

record saved_candidate =
  sc_id :: nat
  sc_name :: string
  sc_party :: js
  sc_manifesto :: js

definition saved_candidate_js :: "saved_candidate \<Rightarrow> js" where
  "saved_candidate_js c =
     JObj [(''id'', JNum (Fin (of_nat (sc_id c)))), (''name'', JStr (sc_name c)),
           (''party'', sc_party c), (''manifesto'', sc_manifesto c)]"

text \<open>
  The loop over the candidates, with the database and \<^verbatim>\<open>savedCandidates\<close> as they stand.
  \<open>Inl\<close> is a throw, with the database as the rows inserted so far left it: \<^verbatim>\<open>c.name\<close> of
  \<^verbatim>\<open>null\<close>, or \<^verbatim>\<open>.trim()\<close> of a name that is truthy and no string.
\<close>

fun candidate_loop :: "string \<Rightarrow> js list \<Rightarrow> db \<Rightarrow> saved_candidate list
  \<Rightarrow> db + db \<times> saved_candidate list" where
  "candidate_loop electionId [] d saved = Inr (d, saved)"
| "candidate_loop electionId (c # cs) d saved =
     (if nullish c then Inl d
      else (case js_trim (js_or (js_get c ''name'') (JStr [])) of
              None \<Rightarrow> Inl d
            | Some name \<Rightarrow>
                if name = [] then candidate_loop electionId cs d saved
                else (case insertCandidate d electionId name
                             (js_or (js_get c ''party'') (JStr []))
                             (js_or (js_get c ''manifesto'') (JStr [])) of
                        (d', rid) \<Rightarrow>
                          candidate_loop electionId cs d'
                            (saved @
                             [\<lparr>sc_id = rid, sc_name = name,
                               sc_party = js_or (js_get c ''party'') (JStr []),
                               sc_manifesto = js_or (js_get c ''manifesto'') (JStr [])\<rparr>]))))"

definition created_by_of :: "(string \<times> js) list option \<Rightarrow> js" where
  "created_by_of user =
     (case user of
        None \<Rightarrow> JNull
      | Some kvs \<Rightarrow>
          js_or (js_get (JObj kvs) ''email'')
            (js_or (js_get (JObj kvs) ''sub'')
               (js_or (js_get (JObj kvs) ''id'') (js_get (JObj kvs) ''name''))))"

text \<open>
  The handler. Whatever is thrown is caught and answered 500, with the database as it
  stands then: \<^verbatim>\<open>new Date\<close> of the start or the end before anything else is done,
  \<^verbatim>\<open>toISOString\<close> of an invalid date (a RangeError) after the identifier is allocated and
  before anything is inserted, the loop over the candidates after the election is inserted.
\<close>

definition createElectionB :: "runtime \<Rightarrow> env \<Rightarrow> db \<Rightarrow> request \<Rightarrow> response \<times> db" where
  "createElectionB rt ev d req =
     (let title = field req ''title'';
          description = js_default (field req ''description'') (JStr []);
          start = field req ''start''; end = field req ''end'';
          eligibility = js_default (field req ''eligibility'') (JStr ''all'');
          candidates = js_default (field req ''candidates'') (JArr []);
          publish = js_default (field req ''publish'') (JBool False)
      in if \<not> truthy title \<or> \<not> truthy start \<or> \<not> truthy end
         then (err 400 ''title, start and end are required'', d)
         else (case (newDate rt start, newDate rt end) of
                 (Some startDate, Some endDate) \<Rightarrow>
                   if date_ge startDate endDate
                   then (err 400 ''end must be after start'', d)
                   else (let created_by = created_by_of (getUserFromAuthHeaderB rt req);
                             electionId = fst (alloc_loop d (\<lambda>k. generateShortId (uuidv4 ev k))
                                                 (generateShortId (uuidv4 ev 0)) 0)
                         in if electionExists d electionId
                            then (err 500 ''Could not generate unique election id'', d)
                            else (case (startDate, endDate) of
                                    (Some s, Some e) \<Rightarrow>
                                      (let electionObj =
                                             \<lparr>r_id = electionId, r_title = title,
                                              r_description = description,
                                              r_start_at = toISOString rt s,
                                              r_end_at = toISOString rt e,
                                              r_eligibility = eligibility,
                                              r_publish = (if truthy publish then 1 else 0),
                                              r_created_by = created_by,
                                              r_created_at = toISOString rt (now ev)\<rparr>
                                       in (case candidate_loop electionId (elems candidates)
                                                  (insertElection d electionObj) [] of
                                             Inl d' \<Rightarrow> (err 500 ''Internal server error'', d')
                                           | Inr (d', savedCandidates) \<Rightarrow>
                                               (send 201
                                                  (JObj [(''success'', JBool True),
                                                     (''election'',
                                                      JObj [(''id'', JStr electionId),
                                                            (''title'', title),
                                                            (''description'', description),
                                                            (''start_at'',
                                                             JStr (r_start_at electionObj)),
                                                            (''end_at'',
                                                             JStr (r_end_at electionObj)),
                                                            (''eligibility'', eligibility),
                                                            (''publish'', JBool (truthy publish)),
                                                            (''created_by'', created_by),
                                                            (''created_at'',
                                                             JStr (r_created_at electionObj)),
                                                            (''candidates'',
                                                             JArr (map saved_candidate_js
                                                                     savedCandidates))])]),
                                                d')))
                                  | _ \<Rightarrow> (err 500 ''Internal server error'', d)))
               | _ \<Rightarrow> (err 500 ''Internal server error'', d)))"

subsection \<open>The read routes\<close>

definition getElectionB :: "db \<Rightarrow> string \<Rightarrow> response" where
  "getElectionB d i =
     (case getElectionById d i of
        None \<Rightarrow> err 404 ''Election not found''
      | Some e \<Rightarrow> send 200 (JObj [(''election'', election_row_js e)]))"

definition getCandidatesB :: "db \<Rightarrow> string \<Rightarrow> response" where
  "getCandidatesB d i =
     send 200
       (JObj [(''candidates'', JArr (map candidate_row_js (getCandidatesByElectionId d i)))])"

section \<open>Vocabulary of the properties\<close>

text \<open>
  An unauthenticated request, in the words of the specification: the authorization header is
  absent or malformed, the token is invalid or expired, or the user id it carries is not
  in the credential store.
\<close>

definition unauthenticated :: "runtime \<Rightarrow> int \<Rightarrow> store \<Rightarrow> request \<Rightarrow> bool" where
  "unauthenticated rt t st req =
     (case authorization req of
        None \<Rightarrow> True
      | Some auth \<Rightarrow>
          take 7 auth \<noteq> ''Bearer '' \<or>
          (case jwtVerify rt t (drop 7 auth) of
             None \<Rightarrow> True
           | Some data \<Rightarrow> js_get data ''id'' \<notin> set (map (\<lambda>u. JStr (u_id u)) (users st))))"

text \<open>The fields of an object, and the values that hold no further fields.\<close>

fun js_keys :: "js \<Rightarrow> string list" where
  "js_keys (JObj kvs) = map fst kvs"
| "js_keys v = []"

fun primitive :: "js \<Rightarrow> bool" where
  "primitive (JArr xs) = False"
| "primitive (JObj kvs) = False"
| "primitive v = True"

text \<open>The summaries in the answer of \<^verbatim>\<open>GET /api/elections\<close>.\<close>

definition summaries :: "store \<Rightarrow> js list" where
  "summaries st = elems (js_get (json (listElections st)) ''elections'')"


definition timestamp_given :: "runtime \<Rightarrow> js \<Rightarrow> bool" where
  "timestamp_given rt v =
     (truthy v \<and> (case v of JNum n \<Rightarrow> True | JStr s \<Rightarrow> dateParse rt s \<noteq> None | _ \<Rightarrow> False))"


text \<open>
  A candidate of a CreateElection request of server.js as GetElection is to return it, with
  the identifier drawn for it: the name as a string, trimmed, the description, the party
  and the manifesto as submitted or the empty string, as JSON has them, and no votes.
\<close>

definition name_text :: "runtime \<Rightarrow> js \<Rightarrow> string" where
  "name_text rt c =
     (case js_String rt (js_or (js_get c ''name'') (JStr [])) of None \<Rightarrow> [] | Some s \<Rightarrow> trim s)"

definition returned_candidate :: "runtime \<Rightarrow> string \<Rightarrow> js \<Rightarrow> js" where
  "returned_candidate rt i c =
     JObj [(''id'', JStr i), (''name'', JStr (name_text rt c)),
           (''description'', jsonify (js_or (js_get c ''description'') (JStr []))),
           (''party'', jsonify (js_or (js_get c ''party'') (JStr []))),
           (''manifesto'', jsonify (js_or (js_get c ''manifesto'') (JStr []))),
           (''votes'', JNum (Fin 0))]"

text \<open>The user an identifier belongs to, as the login route looks it up.\<close>

definition registered :: "store \<Rightarrow> js \<Rightarrow> user option" where
  "registered st identifier =
     find (\<lambda>u. js_of_opt (u_email u) = identifier \<or> js_of_opt (u_phone u) = identifier) (users st)"

text \<open>No two stored users share an email, and no two share a phone.\<close>

definition unique_contacts :: "store \<Rightarrow> bool" where
  "unique_contacts st =
     (distinct (List.map_filter u_email (users st)) \<and>
       distinct (List.map_filter u_phone (users st)))"

text \<open>
  The requests of server.js that write to the store, and the store after a sequence of
  them.
\<close>

datatype call = Register env request | Login env request | CreateElection env request

fun run_call :: "runtime \<Rightarrow> call \<Rightarrow> store \<Rightarrow> store" where
  "run_call rt (Register ev req) st = snd (register rt ev st req)"
| "run_call rt (Login ev req) st = snd (login rt ev st req)"
| "run_call rt (CreateElection ev req) st = snd (createElection rt ev st req)"

definition run :: "runtime \<Rightarrow> call list \<Rightarrow> store \<Rightarrow> store" where
  "run rt calls st = fold (run_call rt) calls st"

text \<open>
  The short-id handler. \<open>short_id ev k\<close> is the identifier of the \<open>k\<close>-th call of
  \<^verbatim>\<open>generateShortId\<close>, \<open>allocation\<close> the identifier the retry loop ends with and the
  retries it made. A request reaches the allocation when it passes the two checks of lines
  38 and 39 (no date of the second throwing), and the insertion when moreover the identifier
  allocated is free and both dates are valid.
\<close>

definition short_id :: "env \<Rightarrow> nat \<Rightarrow> string" where
  "short_id ev k = generateShortId (uuidv4 ev k)"

definition allocation :: "env \<Rightarrow> db \<Rightarrow> string \<times> nat" where
  "allocation ev d = alloc_loop d (short_id ev) (short_id ev 0) 0"

definition reaches_allocation :: "runtime \<Rightarrow> request \<Rightarrow> bool" where
  "reaches_allocation rt req =
     (truthy (field req ''title'') \<and> truthy (field req ''start'') \<and> truthy (field req ''end'') \<and>
      (case (newDate rt (field req ''start''), newDate rt (field req ''end'')) of
         (Some startDate, Some endDate) \<Rightarrow> \<not> date_ge startDate endDate
       | _ \<Rightarrow> False))"

definition valid_date :: "runtime \<Rightarrow> js \<Rightarrow> bool" where
  "valid_date rt v = (case newDate rt v of Some (Some t) \<Rightarrow> True | _ \<Rightarrow> False)"

definition reaches_insertion :: "runtime \<Rightarrow> env \<Rightarrow> db \<Rightarrow> request \<Rightarrow> bool" where
  "reaches_insertion rt ev d req =
     (reaches_allocation rt req \<and> \<not> electionExists d (fst (allocation ev d)) \<and>
      valid_date rt (field req ''start'') \<and> valid_date rt (field req ''end''))"

text \<open>The row that \<^verbatim>\<open>db.insertElection\<close> is given.\<close>

definition new_row :: "runtime \<Rightarrow> env \<Rightarrow> db \<Rightarrow> request \<Rightarrow> election_row" where
  "new_row rt ev d req =
     \<lparr>r_id = fst (allocation ev d), r_title = field req ''title'',
      r_description = js_default (field req ''description'') (JStr []),
      r_start_at =
        (case newDate rt (field req ''start'') of Some (Some s) \<Rightarrow> toISOString rt s | _ \<Rightarrow> []),
      r_end_at =
        (case newDate rt (field req ''end'') of Some (Some e) \<Rightarrow> toISOString rt e | _ \<Rightarrow> []),
      r_eligibility = js_default (field req ''eligibility'') (JStr ''all''),
      r_publish = (if truthy (js_default (field req ''publish'') (JBool False)) then 1 else 0),
      r_created_by = created_by_of (getUserFromAuthHeaderB rt req),
      r_created_at = toISOString rt (now ev)\<rparr>"

text \<open>The election that the short-id handler answers 201 with, before it is sent.\<close>

definition created_B :: "runtime \<Rightarrow> env \<Rightarrow> db \<Rightarrow> request \<Rightarrow> saved_candidate list \<Rightarrow> js" where
  "created_B rt ev d req savedCandidates =
     JObj [(''id'', JStr (fst (allocation ev d))), (''title'', field req ''title''),
           (''description'', js_default (field req ''description'') (JStr [])),
           (''start_at'', JStr (r_start_at (new_row rt ev d req))),
           (''end_at'', JStr (r_end_at (new_row rt ev d req))),
           (''eligibility'', js_default (field req ''eligibility'') (JStr ''all'')),
           (''publish'', JBool (truthy (js_default (field req ''publish'') (JBool False)))),
           (''created_by'', created_by_of (getUserFromAuthHeaderB rt req)),
           (''created_at'', JStr (r_created_at (new_row rt ev d req))),
           (''candidates'', JArr (map saved_candidate_js savedCandidates))]"

text \<open>
  The name of a submitted candidate after \<^verbatim>\<open>(c.name || '').trim()\<close>, empty when the name
  is absent; a candidate is nameless when that is empty. A well-typed candidate is not
  \<^verbatim>\<open>null\<close> and its name, when it has one, is a string. \<open>saved_list\<close> is what the loop
  saves of a list of candidates: those that are not nameless, in their order, each with the
  next row id of the table.
\<close>

definition name_given :: "js \<Rightarrow> string" where
  "name_given c = (case js_trim (js_or (js_get c ''name'') (JStr [])) of None \<Rightarrow> [] | Some n \<Rightarrow> n)"

definition nameless :: "js \<Rightarrow> bool" where
  "nameless c = (name_given c = [])"

definition well_typed_candidate :: "js \<Rightarrow> bool" where
  "well_typed_candidate c =
     (\<not> nullish c \<and> (\<not> truthy (js_get c ''name'') \<or> is_string (js_get c ''name'')))"

definition kept :: "js list \<Rightarrow> js list" where
  "kept cs = filter (\<lambda>c. \<not> nameless c) cs"

definition saved_of :: "nat \<times> js \<Rightarrow> saved_candidate" where
  "saved_of rc =
     (case rc of (rid, c) \<Rightarrow>
        \<lparr>sc_id = rid, sc_name = name_given c, sc_party = js_or (js_get c ''party'') (JStr []),
         sc_manifesto = js_or (js_get c ''manifesto'') (JStr [])\<rparr>)"

definition row_of :: "string \<Rightarrow> saved_candidate \<Rightarrow> candidate_row" where
  "row_of i s =
     \<lparr>cr_rowid = sc_id s, cr_election_id = i, cr_name = sc_name s, cr_party = sc_party s,
      cr_manifesto = sc_manifesto s\<rparr>"

definition saved_list :: "db \<Rightarrow> js list \<Rightarrow> saved_candidate list" where
  "saved_list d cs = map saved_of (enumerate (Suc (length (db_candidates d))) (kept cs))"

section \<open>Example data\<close>

text \<open>
  A library for the examples: it parses two ISO dates and takes every other string the
  examples give it (\<^verbatim>\<open>not a date\<close>) for an invalid date, it accepts and decodes one
  token, and its password hash is the salt followed by the password. The examples reach
  \<open>toISOString\<close> at three times; they never reach \<open>numToString\<close> and
  \<open>stringToNumber\<close>.
\<close>

definition lib :: runtime where
  "lib =
     \<lparr>numToString = (\<lambda>n. ''0''),
      stringToNumber = (\<lambda>s. NaN),
      dateParse = (\<lambda>s. if s = ''2025-01-01T00:00:00Z'' then Some 1735689600000
                       else if s = ''2025-01-02T00:00:00Z'' then Some 1735776000000
                       else None),
      toISOString = (\<lambda>t. if t = 1000 then ''1970-01-01T00:00:01.000Z''
                         else if t = 2000 then ''1970-01-01T00:00:02.000Z''
                         else ''2024-12-24T00:26:40.000Z''),
      jwtSign = (\<lambda>p t. ''token-of-ann''),
      jwtVerify = (\<lambda>t tok. if tok = ''token-of-ann'' then Some (JObj [(''id'', JStr ''u-ann'')])
                           else None),
      jwtDecode = (\<lambda>tok. if tok = ''token-of-ann'' then Some [(''id'', JStr ''u-ann'')] else None),
      bcryptHash = (\<lambda>p s. s @ p),
      bcryptCompare = (\<lambda>p h. Some (h = ''$2a$10$'' @ p))\<rparr>"

definition ev0 :: env where
  "ev0 = \<lparr>now = 1735000000000,
          uuidv4 = (\<lambda>k. ''0000000'' @ [''0123456789'' ! (k mod 10)] @
                         ''-0000-4000-8000-000000000000''),
          genSalt = ''$2a$10$''\<rparr>"

definition ann :: user where
  "ann = \<lparr>u_id = ''u-ann'', u_name = ''Ann'', u_email = Some ''ann@x.io'', u_phone = None,
          u_password_hash = ''$2a$10$secret1'', u_created_at = 1734000000000, u_age = JUndefined,
          u_aadhar = None, u_gender = JUndefined, u_isAdmin = False\<rparr>"

definition st_ann :: store where
  "st_ann = \<lparr>users = [ann], elections = [], audit_log = []\<rparr>"

definition db0 :: db where
  "db0 = \<lparr>db_elections = [], db_candidates = []\<rparr>"

definition anon :: "js \<Rightarrow> request" where
  "anon b = \<lparr>authorization = None, body = b\<rparr>"

definition as_ann :: "js \<Rightarrow> request" where
  "as_ann b = \<lparr>authorization = Some ''Bearer token-of-ann'', body = b\<rparr>"

definition body_A :: js where
  "body_A =
     JObj [(''companyName'', JStr ''Acme''), (''totalSeats'', JNum (Fin 3)),
           (''start_ts'', JNum (Fin 1000)), (''end_ts'', JNum (Fin 2000)),
           (''candidates'',
            JArr [JObj [(''name'', JStr '' Bo ''), (''party'', JStr ''P'')],
                  JObj [(''name'', JStr ''Cy''), (''manifesto'', JStr ''M'')],
                  JObj [(''name'', JStr ''Di''), (''description'', JStr ''D'')]])]"

definition body_B :: js where
  "body_B =
     JObj [(''title'', JStr ''Board''), (''start'', JNum (Fin 1000)), (''end'', JNum (Fin 2000))]"

text \<open>The store after Ann has created the election of \<open>body_A\<close>.\<close>

definition st_acme :: store where
  "st_acme = snd (createElection lib ev0 st_ann (as_ann body_A))"

text \<open>The database after the election of \<open>body_B\<close> has been created.\<close>

definition db_board :: db where
  "db_board = snd (createElectionB lib ev0 db0 (anon body_B))"

text \<open>Requests whose window ends before it starts, and requests whose start is no date.\<close>

definition body_late :: js where
  "body_late =
     JObj [(''companyName'', JStr ''Acme''), (''totalSeats'', JNum (Fin 3)),
           (''start_ts'', JStr ''2025-01-02T00:00:00Z''),
           (''end_ts'', JStr ''2025-01-01T00:00:00Z''),
           (''candidates'', JArr [JObj [(''name'', JStr ''Bo'')]])]"

definition body_late_B :: js where
  "body_late_B =
     JObj [(''title'', JStr ''Board''), (''start'', JStr ''2025-01-02T00:00:00Z''),
           (''end'', JStr ''2025-01-01T00:00:00Z'')]"



definition body_dates :: js where
  "body_dates =
     JObj [(''companyName'', JStr ''Acme''), (''totalSeats'', JNum (Fin 3)),
           (''start_ts'', JNum (Fin 1735689600000)), (''end_ts'', JStr ''2025-01-02T00:00:00Z''),
           (''candidates'', JArr [JObj [(''name'', JStr ''Bo'')]])]"

text \<open>
  Bodies whose number of seats, whose end or whose company name is an object with a property
  \<^verbatim>\<open>toString\<close> of its own, and one whose end is too large for a double.
\<close>

definition body_late_seats :: js where
  "body_late_seats =
     JObj [(''companyName'', JStr ''Acme''), (''totalSeats'', JObj [(''toString'', JNum (Fin 1))]),
           (''start_ts'', JStr ''2025-01-02T00:00:00Z''),
           (''end_ts'', JStr ''2025-01-01T00:00:00Z''),
           (''candidates'', JArr [JObj [(''name'', JStr ''Bo'')]])]"




text \<open>A body with a candidate whose party is a number too large for a double.\<close>

definition body_rich :: js where
  "body_rich =
     JObj [(''companyName'', JStr ''Acme''), (''totalSeats'', JNum (Fin 1)),
           (''start_ts'', JNum (Fin 1000)), (''end_ts'', JNum (Fin 2000)),
           (''candidates'', JArr [JObj [(''name'', JStr '' Bo ''), (''party'', JNum PosInf)]])]"

text \<open>Registrations of Bob, and logins.\<close>

definition body_bob :: js where
  "body_bob =
     JObj [(''name'', JStr ''Bob''), (''email'', JStr ''bob@x.io''),
           (''phone'', JStr ''555-0100 ''), (''password'', JStr ''hunter22'')]"

definition body_bob_again :: js where
  "body_bob_again =
     JObj [(''name'', JStr ''Robert''), (''email'', JStr ''bob@x.io''),
           (''password'', JStr ''hunter33'')]"

definition body_bob_short :: js where
  "body_bob_short =
     JObj [(''name'', JStr ''B''), (''email'', JStr ''bob@x.io''),
           (''password'', JStr ''hunter33'')]"

definition body_bob_phone :: js where
  "body_bob_phone =
     JObj [(''name'', JStr ''Rob''), (''phone'', JStr ''555-0100 ''),
           (''password'', JStr ''hunter33'')]"

definition login_ann :: js where
  "login_ann = JObj [(''identifier'', JStr ''ann@x.io''), (''password'', JStr ''secret1'')]"

definition login_ann_wrong :: js where
  "login_ann_wrong = JObj [(''identifier'', JStr ''ann@x.io''), (''password'', JStr ''wrong'')]"

definition login_ghost :: js where
  "login_ghost = JObj [(''identifier'', JStr ''bob@x.io''), (''password'', JStr ''hunter22'')]"

text \<open>Logins with a password that is a number.\<close>

definition login_ann_number :: js where
  "login_ann_number = JObj [(''identifier'', JStr ''ann@x.io''), (''password'', JNum (Fin 123456))]"

definition login_ghost_number :: js where
  "login_ghost_number =
     JObj [(''identifier'', JStr ''bob@x.io''), (''password'', JNum (Fin 123456))]"

text \<open>The store after Bob has registered, and the same after Ann has logged in.\<close>

definition st_bob :: store where
  "st_bob = snd (register lib ev0 st_ann (anon body_bob))"

definition st_bob_later :: store where
  "st_bob_later = run lib [Login ev0 (anon login_ann)] st_bob"

text \<open>
  Databases that hold the first two, and the first seven, short ids that \<open>ev0\<close> draws;
  requests with candidates that have no name, and one whose second candidate is \<^verbatim>\<open>null\<close>.
\<close>

definition old_row :: "string \<Rightarrow> election_row" where
  "old_row i =
     \<lparr>r_id = i, r_title = JStr ''Old'', r_description = JStr [],
      r_start_at = ''1970-01-01T00:00:01.000Z'', r_end_at = ''1970-01-01T00:00:02.000Z'',
      r_eligibility = JStr ''all'', r_publish = 0, r_created_by = JNull,
      r_created_at = ''2024-12-24T00:26:40.000Z''\<rparr>"

definition db_two :: db where
  "db_two = \<lparr>db_elections = map old_row [''0000000000'', ''0000000100''], db_candidates = []\<rparr>"

definition db_seven :: db where
  "db_seven =
     \<lparr>db_elections = map old_row [''0000000000'', ''0000000100'', ''0000000200'', ''0000000300'',
                                   ''0000000400'', ''0000000500'', ''0000000600''],
      db_candidates = []\<rparr>"

definition body_B_four :: js where
  "body_B_four =
     JObj [(''title'', JStr ''Board''), (''start'', JNum (Fin 1000)), (''end'', JNum (Fin 2000)),
           (''candidates'',
            JArr [JObj [(''name'', JStr ''  '')],
                  JObj [(''name'', JStr ''Eve''), (''party'', JStr ''Q'')],
                  JObj [(''party'', JStr ''R'')],
                  JObj [(''name'', JStr '' Flo ''), (''manifesto'', JStr ''M'')]])]"

definition body_B_blank :: js where
  "body_B_blank =
     JObj [(''title'', JStr ''Board''), (''start'', JNum (Fin 1000)), (''end'', JNum (Fin 2000)),
           (''candidates'', JArr [JObj [(''name'', JStr ''  '')], JObj [(''party'', JStr ''R'')]])]"

definition body_B_null :: js where
  "body_B_null =
     JObj [(''title'', JStr ''Board''), (''start'', JNum (Fin 1000)), (''end'', JNum (Fin 2000)),
           (''candidates'', JArr [JObj [(''name'', JStr ''Eve'')], JNull,
                                  JObj [(''name'', JStr ''Flo'')]])]"

section \<open>Evaluation of the examples\<close>

lemmas value_defs = field_def js_or_def js_default_def err_def send_def num_le_def trim_def
  js_space_def json_number_def js_of_number_def Let_def

lemmas server_defs = createElection_def requireAuth_def getUserFromAuthHeader_def
  parseToNumber_def normalized_def mk_election_def mk_candidate_def audit_def

lemmas register_defs = register_def register_checks_def both_blank_def blank_def trimmed_def
  isValidEmail_def isValidPhone_def email_regex_def email_char_def phone_regex_def digit_def
  new_user_def

lemmas short_id_defs = createElectionB_def timeClip_def date_ge_def alloc_loop.simps
  electionExists_def generateShortId_def insertElection_def insertCandidate_def
  getUserFromAuthHeaderB_def created_by_of_def

lemma st_acme_elections:
  "map e_id (elections st_acme) = [''00000000-0000-4000-8000-000000000000'']"
  by (simp add: st_acme_def lib_def ev0_def ann_def st_ann_def as_ann_def body_A_def value_defs
      server_defs)

lemma db_board_elections: "map r_id (db_elections db_board) = [''0000000000'']"
  by (simp add: db_board_def lib_def ev0_def db0_def anon_def body_B_def value_defs short_id_defs)

section \<open>JSON\<close>

lemma jsonify_defined [simp]: "jsonify v \<noteq> JUndefined"
  by (cases v) (simp_all split: jnum.splits)

lemma jsonify_idem [simp]: "jsonify (jsonify v) = jsonify v"
proof (induction v rule: jsonify.induct)
  case (7 kvs)
  then show ?case
    by (simp add: filter_map comp_def filter_id_conv)
qed (simp_all split: jnum.splits)

lemma js_or_defined [simp]: "js_or a (JStr s) \<noteq> JUndefined"
  by (cases a) (simp_all add: js_or_def)

lemma status_send [simp]: "status (send c v) = c"
  by (simp add: send_def)

lemma json_send: "json (send c v) = jsonify v"
  by (simp add: send_def)

lemma those_Some_iff: "those xs = Some ys \<longleftrightarrow> xs = map Some ys"
  by (induction xs arbitrary: ys) (auto split: option.splits)

section \<open>Authentication of CreateElection\<close>

lemma js_get_nullish: "nullish v \<Longrightarrow> js_get v k = JUndefined"
  by (cases v) simp_all

lemma getUser_None_iff:
  "getUserFromAuthHeader rt t st req = None \<longleftrightarrow> unauthenticated rt t st req"
  by (force simp: getUserFromAuthHeader_def unauthenticated_def find_None_iff js_get_nullish
           split: option.splits)

lemma getUser_Some_mem:
  "getUserFromAuthHeader rt t st req = Some u \<Longrightarrow> u \<in> set (users st)"
  by (auto simp: getUserFromAuthHeader_def find_Some_iff split: option.splits if_splits)

lemma createElection_unauth:
  "getUserFromAuthHeader rt (now ev) st req = None \<Longrightarrow>
   createElection rt ev st req = (err 401 ''Missing or invalid token'', st)"
  by (simp add: createElection_def requireAuth_def)

lemma mk_election_creator:
  "mk_election rt ev u req s e seats = Some el \<Longrightarrow> e_created_by el = u_id u \<and> e_id el = uuidv4 ev 0"
  by (auto simp: mk_election_def Let_def split: option.splits)

text \<open>
  The handler either fails and leaves the store as it was, or answers 201 and appends one
  election and one audit line.
\<close>

lemma createElection_store:
  "(snd (createElection rt ev st req) = st \<and> status (fst (createElection rt ev st req)) \<noteq> 201) \<or>
   (\<exists>u s e seats el.
       getUserFromAuthHeader rt (now ev) st req = Some u \<and>
       isArray (field req ''candidates'') \<and>
       normalized rt (field req ''start_ts'') (field req ''end_ts'') (field req ''totalSeats'') =
         Some (s, e, seats) \<and>
       mk_election rt ev u req s e seats = Some el \<and>
       fst (createElection rt ev st req) =
         send 201 (JObj [(''success'', JBool True), (''election'', election_js el)]) \<and>
       snd (createElection rt ev st req) =
         audit (now ev) (''create-election | user:'' @ u_id u @ '' | election:'' @ e_id el)
           (st\<lparr>elections := elections st @ [el]\<rparr>))"
proof (cases "getUserFromAuthHeader rt (now ev) st req")
  case None
  then show ?thesis
    by (simp add: createElection_def requireAuth_def err_def)
next
  case (Some u)
  have "isArray (js_default (field req ''candidates'') (JArr [])) \<and>
        elems (js_default (field req ''candidates'') (JArr [])) \<noteq> [] \<Longrightarrow>
        isArray (field req ''candidates'')"
    by (auto simp: js_default_def split: if_splits)
  with Some show ?thesis
    by (auto simp: createElection_def requireAuth_def Let_def err_def split: option.splits)
qed

lemma candidate_loop_elections:
  "candidate_loop i cs d saved = Inr (d', out) \<Longrightarrow> db_elections d' = db_elections d"
  by (induction cs arbitrary: d saved)
     (auto simp: insertCandidate_def Let_def split: if_splits option.splits prod.splits)

lemma createElectionB_not401: "status (fst (createElectionB rt ev d req)) \<noteq> 401"
  by (simp add: createElectionB_def Let_def err_def split: option.splits sum.splits prod.splits)

lemma createElectionB_201:
  assumes "status (fst (createElectionB rt ev d req)) = 201"
  shows "\<exists>r. db_elections (snd (createElectionB rt ev d req)) = db_elections d @ [r] \<and>
             r_created_by r = created_by_of (getUserFromAuthHeaderB rt req)"
proof -
  let ?eid = "fst (alloc_loop d (\<lambda>k. generateShortId (uuidv4 ev k))
                     (generateShortId (uuidv4 ev 0)) 0)"
  from assms obtain s e where
    se: "newDate rt (field req ''start'') = Some (Some s)"
      "newDate rt (field req ''end'') = Some (Some e)"
    by (auto simp: createElectionB_def Let_def err_def split: option.splits if_splits)
  define row where "row =
     \<lparr>r_id = ?eid, r_title = field req ''title'',
      r_description = js_default (field req ''description'') (JStr []),
      r_start_at = toISOString rt s, r_end_at = toISOString rt e,
      r_eligibility = js_default (field req ''eligibility'') (JStr ''all''),
      r_publish = (if truthy (js_default (field req ''publish'') (JBool False)) then 1 else 0),
      r_created_by = created_by_of (getUserFromAuthHeaderB rt req),
      r_created_at = toISOString rt (now ev)\<rparr>"
  from assms se obtain d' sv where
    loop: "candidate_loop ?eid (elems (js_default (field req ''candidates'') (JArr [])))
             (insertElection d row) [] = Inr (d', sv)"
    and res: "snd (createElectionB rt ev d req) = d'"
    by (auto simp: createElectionB_def Let_def err_def row_def split: sum.splits if_splits)
  from candidate_loop_elections[OF loop] have "db_elections d' = db_elections d @ [row]"
    by (simp add: insertElection_def)
  with res show ?thesis by (intro exI[of _ row]) (simp add: row_def)
qed

text \<open>
  C1, as the code has it. In server.js a request is unauthenticated exactly when its caller
  resolves to nobody; CreateElection then answers 401 and leaves the store as it was, and
  whenever it adds an election the caller is a stored user, recorded as its creator. The
  short-id routes require no authentication: they never answer 401, they record as creator
  what the decoded header gives, and that is \<^verbatim>\<open>null\<close> for a request without a header.
\<close>

theorem createElection_requires_auth:
  "(getUserFromAuthHeader rt (now ev) st req = None \<longleftrightarrow> unauthenticated rt (now ev) st req) \<and>
   (unauthenticated rt (now ev) st req \<longrightarrow>
      createElection rt ev st req = (err 401 ''Missing or invalid token'', st)) \<and>
   (elections (snd (createElection rt ev st req)) \<noteq> elections st \<longrightarrow>
      (\<exists>u \<in> set (users st).
          getUserFromAuthHeader rt (now ev) st req = Some u \<and>
          (\<exists>el. elections (snd (createElection rt ev st req)) = elections st @ [el] \<and>
                e_created_by el = u_id u))) \<and>
   status (fst (createElectionB rt ev d req)) \<noteq> 401 \<and>
   (status (fst (createElectionB rt ev d req)) = 201 \<longrightarrow>
      (\<exists>r. db_elections (snd (createElectionB rt ev d req)) = db_elections d @ [r] \<and>
           r_created_by r = created_by_of (getUserFromAuthHeaderB rt req))) \<and>
   (authorization req = None \<longrightarrow> created_by_of (getUserFromAuthHeaderB rt req) = JNull)"
proof (intro conjI impI)
  show "getUserFromAuthHeader rt (now ev) st req = None \<longleftrightarrow> unauthenticated rt (now ev) st req"
    by (rule getUser_None_iff)
next
  assume "unauthenticated rt (now ev) st req"
  then show "createElection rt ev st req = (err 401 ''Missing or invalid token'', st)"
    by (simp add: createElection_unauth getUser_None_iff)
next
  assume changed: "elections (snd (createElection rt ev st req)) \<noteq> elections st"
  with createElection_store[of rt ev st req] obtain u s e seats el where
    u: "getUserFromAuthHeader rt (now ev) st req = Some u"
    and m: "mk_election rt ev u req s e seats = Some el"
    and s: "snd (createElection rt ev st req) =
          audit (now ev) (''create-election | user:'' @ u_id u @ '' | election:'' @ e_id el)
            (st\<lparr>elections := elections st @ [el]\<rparr>)"
    by auto
  from u have "u \<in> set (users st)" by (rule getUser_Some_mem)
  moreover from s have "elections (snd (createElection rt ev st req)) = elections st @ [el]"
    by (simp add: audit_def)
  moreover from m have "e_created_by el = u_id u"
    by (simp add: mk_election_creator)
  ultimately show "\<exists>u \<in> set (users st).
          getUserFromAuthHeader rt (now ev) st req = Some u \<and>
          (\<exists>el. elections (snd (createElection rt ev st req)) = elections st @ [el] \<and>
                e_created_by el = u_id u)"
    using u by blast
next
  show "status (fst (createElectionB rt ev d req)) \<noteq> 401"
    by (rule createElectionB_not401)
next
  assume "status (fst (createElectionB rt ev d req)) = 201"
  then show "\<exists>r. db_elections (snd (createElectionB rt ev d req)) = db_elections d @ [r] \<and>
           r_created_by r = created_by_of (getUserFromAuthHeaderB rt req)"
    by (rule createElectionB_201)
next
  assume "authorization req = None"
  then show "created_by_of (getUserFromAuthHeaderB rt req) = JNull"
    by (simp add: getUserFromAuthHeaderB_def created_by_of_def)
qed

theorem createElection_requires_auth_witness:
  "unauthenticated lib (now ev0) st_ann (anon body_A) \<and>
   createElection lib ev0 st_ann (anon body_A) = (err 401 ''Missing or invalid token'', st_ann) \<and>
   elections (snd (createElection lib ev0 st_ann (as_ann body_A))) \<noteq> elections st_ann \<and>
   getUserFromAuthHeader lib (now ev0) st_ann (as_ann body_A) = Some ann \<and>
   map e_created_by (elections (snd (createElection lib ev0 st_ann (as_ann body_A)))) =
     [''u-ann''] \<and>
   status (fst (createElectionB lib ev0 db0 (anon body_B))) = 201 \<and>
   map r_created_by (db_elections (snd (createElectionB lib ev0 db0 (anon body_B)))) = [JNull]"
proof -
  have u: "unauthenticated lib (now ev0) st_ann (anon body_A)"
    by (simp add: unauthenticated_def anon_def)
  have c: "elections (snd (createElection lib ev0 st_ann (as_ann body_A))) \<noteq> elections st_ann"
    by (simp add: lib_def ev0_def ann_def st_ann_def as_ann_def body_A_def value_defs server_defs)
  have g: "getUserFromAuthHeader lib (now ev0) st_ann (as_ann body_A) = Some ann"
    by (simp add: lib_def ev0_def ann_def st_ann_def as_ann_def getUserFromAuthHeader_def)
  have b: "status (fst (createElectionB lib ev0 db0 (anon body_B))) = 201"
    by (simp add: lib_def ev0_def db0_def anon_def body_B_def value_defs short_id_defs)
  have h: "authorization (anon body_B) = None"
    by (simp add: anon_def)
  note A = createElection_requires_auth[of lib ev0 st_ann "anon body_A" db0]
  note A' = createElection_requires_auth[of lib ev0 st_ann "as_ann body_A" db0]
  note B = createElection_requires_auth[of lib ev0 st_ann "anon body_B" db0]
  from A u have
    "createElection lib ev0 st_ann (anon body_A) = (err 401 ''Missing or invalid token'', st_ann)"
    by blast
  moreover from A' c g have
    "map e_created_by (elections (snd (createElection lib ev0 st_ann (as_ann body_A)))) =
       [''u-ann'']"
    by (auto simp: ann_def st_ann_def)
  moreover from B b h have
    "map r_created_by (db_elections (snd (createElectionB lib ev0 db0 (anon body_B)))) = [JNull]"
    by (auto simp: db0_def)
  ultimately show ?thesis using u c g b by blast
qed

text \<open>
  The claim as it was stated fails on the short-id routes: a request without any
  authorization header creates an election.
\<close>

theorem createElection_requires_auth_counterexample:
  "authorization (anon body_B) = None \<and>
   status (fst (createElectionB lib ev0 db0 (anon body_B))) = 201 \<and>
   db_elections db0 = [] \<and>
   map r_id (db_elections (snd (createElectionB lib ev0 db0 (anon body_B)))) = [''0000000000'']"
  by (simp add: lib_def ev0_def db0_def anon_def body_B_def value_defs short_id_defs)

section \<open>Looking up an election\<close>

lemma find_id_None: "find (\<lambda>x. f x = i) xs = None \<longleftrightarrow> i \<notin> set (map f xs)"
  by (auto simp: find_None_iff)

lemma getElectionById_None: "getElectionById d i = None \<longleftrightarrow> \<not> electionExists d i"
  by (simp add: getElectionById_def electionExists_def find_id_None)

text \<open>
  C6, as the code has it. In server.js GetElection and GetCandidates answer 404 for an id
  that is not in the registry and 200 for one that is. The short-id GetElection answers 404
  exactly when the lookup finds nothing, that is (with the lookup modelled from the
  specification) for an id that is not stored; the short-id GetCandidates has no 404: it
  answers 200 with the list of the candidates stored under the id, whatever the id.
\<close>

theorem election_lookup_status:
  "(i \<notin> set (map e_id (elections st)) \<longrightarrow>
      getElection st i = err 404 ''Election not found'' \<and>
      getCandidates st i = err 404 ''Election not found'') \<and>
   (i \<in> set (map e_id (elections st)) \<longrightarrow>
      status (getElection st i) = 200 \<and> status (getCandidates st i) = 200) \<and>
   (getElectionById d i = None \<longrightarrow> getElectionB d i = err 404 ''Election not found'') \<and>
   (getElectionById d i \<noteq> None \<longrightarrow> status (getElectionB d i) = 200) \<and>
   (getElectionById d i = None \<longleftrightarrow> \<not> electionExists d i) \<and>
   getCandidatesB d i =
     \<lparr>status = 200,
      json = JObj [(''candidates'',
                    JArr (map (\<lambda>c. jsonify (candidate_row_js c))
                            (getCandidatesByElectionId d i)))]\<rparr>"
proof (intro conjI impI)
  assume a: "i \<notin> set (map e_id (elections st))"
  then have "find (\<lambda>x. e_id x = i) (elections st) = None"
    by (simp add: find_id_None)
  then show "getElection st i = err 404 ''Election not found''"
    and "getCandidates st i = err 404 ''Election not found''"
    by (simp_all add: getElection_def getCandidates_def)
next
  assume "i \<in> set (map e_id (elections st))"
  then have "find (\<lambda>x. e_id x = i) (elections st) \<noteq> None"
    unfolding find_id_None by blast
  then obtain e where "find (\<lambda>x. e_id x = i) (elections st) = Some e"
    by blast
  then show "status (getElection st i) = 200" and "status (getCandidates st i) = 200"
    by (simp_all add: getElection_def getCandidates_def)
next
  assume "getElectionById d i = None"
  then show "getElectionB d i = err 404 ''Election not found''"
    by (simp add: getElectionB_def)
next
  assume "getElectionById d i \<noteq> None"
  then show "status (getElectionB d i) = 200"
    by (auto simp: getElectionB_def)
next
  show "getElectionById d i = None \<longleftrightarrow> \<not> electionExists d i"
    by (rule getElectionById_None)
next
  show "getCandidatesB d i =
     \<lparr>status = 200,
      json = JObj [(''candidates'',
                    JArr (map (\<lambda>c. jsonify (candidate_row_js c))
                            (getCandidatesByElectionId d i)))]\<rparr>"
    by (simp add: getCandidatesB_def send_def comp_def)
qed

theorem election_lookup_status_witness:
  "''nope'' \<notin> set (map e_id (elections st_acme)) \<and>
   status (getElection st_acme ''nope'') = 404 \<and>
   status (getCandidates st_acme ''nope'') = 404 \<and>
   ''00000000-0000-4000-8000-000000000000'' \<in> set (map e_id (elections st_acme)) \<and>
   status (getElection st_acme ''00000000-0000-4000-8000-000000000000'') = 200 \<and>
   status (getCandidates st_acme ''00000000-0000-4000-8000-000000000000'') = 200 \<and>
   getElectionById db_board ''nope'' = None \<and>
   status (getElectionB db_board ''nope'') = 404 \<and>
   getElectionById db_board ''0000000000'' \<noteq> None \<and>
   status (getElectionB db_board ''0000000000'') = 200 \<and>
   status (getCandidatesB db_board ''nope'') = 200"
proof -
  have absent: "''nope'' \<notin> set (map e_id (elections st_acme))"
    and present: "''00000000-0000-4000-8000-000000000000'' \<in> set (map e_id (elections st_acme))"
    by (simp_all only: st_acme_elections) simp_all
  have absentB: "getElectionById db_board ''nope'' = None"
    and presentB: "getElectionById db_board ''0000000000'' \<noteq> None"
    by (simp_all only: getElectionById_None electionExists_def db_board_elections) simp_all
  note N = election_lookup_status[of "''nope''" st_acme db_board]
  note P = election_lookup_status[of "''00000000-0000-4000-8000-000000000000''" st_acme "db_board"]
  note Q = election_lookup_status[of "''0000000000''" st_acme db_board]
  from N absent absentB have
    "status (getElection st_acme ''nope'') = 404"
    "status (getCandidates st_acme ''nope'') = 404"
    "status (getElectionB db_board ''nope'') = 404"
    "status (getCandidatesB db_board ''nope'') = 200"
    by (simp_all add: err_def)
  moreover from P present have
    "status (getElection st_acme ''00000000-0000-4000-8000-000000000000'') = 200"
    "status (getCandidates st_acme ''00000000-0000-4000-8000-000000000000'') = 200"
    by simp_all
  moreover from Q presentB have "status (getElectionB db_board ''0000000000'') = 200"
    by simp
  ultimately show ?thesis using absent present absentB presentB by simp
qed

text \<open>
  The claim as it was stated fails on the short-id routes: GetCandidates answers 200 for
  an id that no election has.
\<close>

theorem election_lookup_status_counterexample:
  "\<not> electionExists db_board ''nope'' \<and>
   getElectionById db_board ''nope'' = None \<and>
   getCandidatesB db_board ''nope'' = \<lparr>status = 200, json = JObj [(''candidates'', JArr [])]\<rparr>"
proof -
  have "\<not> electionExists db_board ''nope''"
    by (simp add: electionExists_def db_board_elections)
  moreover have "db_candidates db_board = []"
    by (simp add: db_board_def lib_def ev0_def db0_def anon_def body_B_def value_defs short_id_defs)
  ultimately show ?thesis
    by (simp add: getElectionById_None getCandidatesB_def getCandidatesByElectionId_def send_def)
qed

section \<open>The public summary\<close>

lemma jsonify_number [simp]: "jsonify (js_of_number x) = js_of_number x"
  by (simp add: js_of_number_def split: option.splits)

lemma jsonify_summary [simp]: "jsonify (summary_js e) = summary_js e"
  by (simp add: summary_js_def js_of_number_def split: option.splits)

lemma summaries_eq: "summaries st = map summary_js (elections st)"
  by (simp add: summaries_def listElections_def send_def)

lemma summary_keys:
  "js_keys (summary_js e) =
     [''id'', ''companyName'', ''totalSeats'', ''start_ts'', ''end_ts'', ''description'']"
  by (simp add: summary_js_def)

lemma summary_primitive: "primitive (js_get (summary_js e) k)"
  by (simp add: summary_js_def js_of_number_def split: option.splits)

text \<open>
  C7. ListElections answers 200 with one summary for each election of the registry, and
  every summary has exactly the fields id, companyName, totalSeats, start_ts, end_ts and
  description: no candidates, no votes, no password data; and not inside a field either,
  every field of a summary being a string, a number or \<^verbatim>\<open>null\<close>.
\<close>

theorem listElections_summary_only:
  "status (listElections st) = 200 \<and>
   length (summaries st) = length (elections st) \<and>
   (\<forall>s \<in> set (summaries st).
      js_keys s = [''id'', ''companyName'', ''totalSeats'', ''start_ts'', ''end_ts'',
        ''description''] \<and>
      ''candidates'' \<notin> set (js_keys s) \<and> ''votes'' \<notin> set (js_keys s) \<and>
      ''password_hash'' \<notin> set (js_keys s) \<and> ''password'' \<notin> set (js_keys s) \<and>
      (\<forall>k. primitive (js_get s k)))"
  by (auto simp: summaries_eq summary_keys summary_primitive listElections_def)

theorem listElections_summary_only_witness:
  "summaries st_acme =
     [JObj [(''id'', JStr ''00000000-0000-4000-8000-000000000000''),
            (''companyName'', JStr ''Acme''),
            (''totalSeats'', JNum (Fin 3)), (''start_ts'', JNum (Fin 1000)),
            (''end_ts'', JNum (Fin 2000)), (''description'', JStr [])]] \<and>
   js_keys (hd (summaries st_acme)) =
     [''id'', ''companyName'', ''totalSeats'', ''start_ts'', ''end_ts'', ''description''] \<and>
   js_get (json (getElection st_acme ''00000000-0000-4000-8000-000000000000'')) ''election'' \<noteq>
     JUndefined \<and>
   js_keys (js_get (json (getElection st_acme ''00000000-0000-4000-8000-000000000000''))
     ''election'') =
     [''id'', ''companyName'', ''totalSeats'', ''description'', ''start_ts'', ''end_ts'',
      ''created_by'', ''created_at'', ''candidates'']"
proof -
  have s: "summaries st_acme =
     [JObj [(''id'', JStr ''00000000-0000-4000-8000-000000000000''),
            (''companyName'', JStr ''Acme''),
            (''totalSeats'', JNum (Fin 3)), (''start_ts'', JNum (Fin 1000)),
            (''end_ts'', JNum (Fin 2000)), (''description'', JStr [])]]"
    by (simp add: summaries_eq summary_js_def st_acme_def lib_def ev0_def ann_def st_ann_def
        as_ann_def body_A_def value_defs server_defs)
  then have m: "hd (summaries st_acme) \<in> set (summaries st_acme)"
    by simp
  have g: "js_get (json (getElection st_acme ''00000000-0000-4000-8000-000000000000'')) ''election''
    \<noteq> JUndefined \<and>
    js_keys (js_get (json (getElection st_acme ''00000000-0000-4000-8000-000000000000''))
      ''election'') =
     [''id'', ''companyName'', ''totalSeats'', ''description'', ''start_ts'', ''end_ts'',
      ''created_by'', ''created_at'', ''candidates'']"
    by (simp add: getElection_def election_js_def st_acme_def lib_def ev0_def ann_def st_ann_def
        as_ann_def body_A_def value_defs server_defs)
  from listElections_summary_only[of st_acme] m have
    "js_keys (hd (summaries st_acme)) =
       [''id'', ''companyName'', ''totalSeats'', ''start_ts'', ''end_ts'', ''description'']"
    by blast
  with s g show ?thesis by blast
qed

section \<open>The voting window\<close>

lemma createElection_late:
  assumes "parseToNumber rt (field req ''start_ts'') = Some s"
    and "parseToNumber rt (field req ''end_ts'') = Some e"
    and "num_ge s e"
  shows "snd (createElection rt ev st req) = st"
    and "getUserFromAuthHeader rt (now ev) st req = None \<Longrightarrow>
         status (fst (createElection rt ev st req)) = 401"
    and "getUserFromAuthHeader rt (now ev) st req \<noteq> None \<Longrightarrow>
         js_Number rt (field req ''totalSeats'') \<noteq> None \<Longrightarrow>
         status (fst (createElection rt ev st req)) = 400"
    and "getUserFromAuthHeader rt (now ev) st req \<noteq> None \<Longrightarrow>
         js_Number rt (field req ''totalSeats'') = None \<Longrightarrow>
         status (fst (createElection rt ev st req)) = 400 \<or>
         fst (createElection rt ev st req) = err 500 ''Server error''"
  using assms
  by (auto simp: createElection_def requireAuth_def normalized_def Let_def err_def
           split: option.splits)

lemma createElectionB_late:
  assumes "newDate rt (field req ''start'') = Some a" "newDate rt (field req ''end'') = Some b"
    and "date_ge a b"
  shows "status (fst (createElectionB rt ev d req)) = 400"
    and "snd (createElectionB rt ev d req) = d"
  using assms by (simp_all add: createElectionB_def Let_def err_def)

text \<open>
  C2, as the code has it. When the normalized start is greater than or equal to the
  normalized end, no election is persisted, whatever the other fields are. The short-id
  handler answers 400. The handler of server.js resolves the caller before any field is
  read, and answers 401 to an unauthenticated one; it answers 400 to an authenticated one
  whose number of seats is converted without a throw. The three conversions of line 279
  come before the test of the timestamps: when that of the number of seats throws, the
  answer is 400 for a missing field and 500 otherwise.
\<close>

theorem start_not_before_end_rejected:
  "(parseToNumber rt (field req ''start_ts'') = Some s \<and>
    parseToNumber rt (field req ''end_ts'') = Some e \<and> num_ge s e \<longrightarrow>
      snd (createElection rt ev st req) = st \<and>
      (getUserFromAuthHeader rt (now ev) st req = None \<longrightarrow>
         status (fst (createElection rt ev st req)) = 401) \<and>
      (getUserFromAuthHeader rt (now ev) st req \<noteq> None \<and>
       js_Number rt (field req ''totalSeats'') \<noteq> None \<longrightarrow>
         status (fst (createElection rt ev st req)) = 400) \<and>
      (getUserFromAuthHeader rt (now ev) st req \<noteq> None \<and>
       js_Number rt (field req ''totalSeats'') = None \<longrightarrow>
         status (fst (createElection rt ev st req)) = 400 \<or>
         fst (createElection rt ev st req) = err 500 ''Server error'')) \<and>
   (newDate rt (field req ''start'') = Some a \<and> newDate rt (field req ''end'') = Some b \<and>
    date_ge a b \<longrightarrow>
      status (fst (createElectionB rt ev d req)) = 400 \<and> snd (createElectionB rt ev d req) = d)"
  using createElection_late[of rt req s e ev st] createElectionB_late[of rt req a b ev d]
  by blast

theorem start_not_before_end_rejected_witness:
  "parseToNumber lib (field (as_ann body_late) ''start_ts'') = Some (Fin 1735776000000) \<and>
   parseToNumber lib (field (as_ann body_late) ''end_ts'') = Some (Fin 1735689600000) \<and>
   num_ge (Fin 1735776000000) (Fin 1735689600000) \<and>
   getUserFromAuthHeader lib (now ev0) st_ann (as_ann body_late) \<noteq> None \<and>
   js_Number lib (field (as_ann body_late) ''totalSeats'') \<noteq> None \<and>
   status (fst (createElection lib ev0 st_ann (as_ann body_late))) = 400 \<and>
   snd (createElection lib ev0 st_ann (as_ann body_late)) = st_ann \<and>
   getUserFromAuthHeader lib (now ev0) st_ann (anon body_late) = None \<and>
   status (fst (createElection lib ev0 st_ann (anon body_late))) = 401 \<and>
   js_Number lib (field (as_ann body_late_seats) ''totalSeats'') = None \<and>
   snd (createElection lib ev0 st_ann (as_ann body_late_seats)) = st_ann \<and>
   newDate lib (field (anon body_late_B) ''start'') = Some (Some 1735776000000) \<and>
   newDate lib (field (anon body_late_B) ''end'') = Some (Some 1735689600000) \<and>
   date_ge (Some 1735776000000) (Some 1735689600000) \<and>
   status (fst (createElectionB lib ev0 db0 (anon body_late_B))) = 400 \<and>
   snd (createElectionB lib ev0 db0 (anon body_late_B)) = db0"
proof -
  have p: "parseToNumber lib (field (as_ann body_late) ''start_ts'') = Some (Fin 1735776000000)"
    "parseToNumber lib (field (as_ann body_late) ''end_ts'') = Some (Fin 1735689600000)"
    "parseToNumber lib (field (anon body_late) ''start_ts'') = Some (Fin 1735776000000)"
    "parseToNumber lib (field (anon body_late) ''end_ts'') = Some (Fin 1735689600000)"
    "parseToNumber lib (field (as_ann body_late_seats) ''start_ts'') = Some (Fin 1735776000000)"
    "parseToNumber lib (field (as_ann body_late_seats) ''end_ts'') = Some (Fin 1735689600000)"
    by (simp_all add: lib_def anon_def as_ann_def body_late_def body_late_seats_def value_defs
        parseToNumber_def)
  have ge: "num_ge (Fin 1735776000000) (Fin 1735689600000)"
    by simp
  have some: "getUserFromAuthHeader lib (now ev0) st_ann (as_ann body_late) \<noteq> None"
    and none: "getUserFromAuthHeader lib (now ev0) st_ann (anon body_late) = None"
    by (simp_all add: lib_def ev0_def ann_def st_ann_def anon_def as_ann_def
        getUserFromAuthHeader_def)
  have n: "js_Number lib (field (as_ann body_late) ''totalSeats'') \<noteq> None"
    and n': "js_Number lib (field (as_ann body_late_seats) ''totalSeats'') = None"
    by (simp_all add: as_ann_def body_late_def body_late_seats_def value_defs)
  have q: "newDate lib (field (anon body_late_B) ''start'') = Some (Some 1735776000000)"
    "newDate lib (field (anon body_late_B) ''end'') = Some (Some 1735689600000)"
    by (simp_all add: lib_def anon_def body_late_B_def value_defs)
  have geB: "date_ge (Some 1735776000000) (Some (1735689600000 :: int))"
    by (simp add: date_ge_def)
  note A = start_not_before_end_rejected[of lib "as_ann body_late" "Fin 1735776000000"
    "Fin 1735689600000" ev0 st_ann "Some 0" "Some 0" db0]
  note A' = start_not_before_end_rejected[of lib "anon body_late" "Fin 1735776000000"
    "Fin 1735689600000" ev0 st_ann "Some 0" "Some 0" db0]
  note S = start_not_before_end_rejected[of lib "as_ann body_late_seats" "Fin 1735776000000"
    "Fin 1735689600000" ev0 st_ann "Some 0" "Some 0" db0]
  note B = start_not_before_end_rejected[of lib "anon body_late_B" NaN NaN ev0 st_ann
    "Some 1735776000000" "Some 1735689600000" db0]
  from A p ge some n have
    "status (fst (createElection lib ev0 st_ann (as_ann body_late))) = 400 \<and>
     snd (createElection lib ev0 st_ann (as_ann body_late)) = st_ann"
    by blast
  moreover from A' p ge none have
    "status (fst (createElection lib ev0 st_ann (anon body_late))) = 401"
    by blast
  moreover from S p ge have "snd (createElection lib ev0 st_ann (as_ann body_late_seats)) = st_ann"
    by blast
  moreover from B q geB have
    "status (fst (createElectionB lib ev0 db0 (anon body_late_B))) = 400 \<and>
     snd (createElectionB lib ev0 db0 (anon body_late_B)) = db0"
    by blast
  ultimately show ?thesis using p ge some none n n' q geB by blast
qed

text \<open>
  The claim as it was stated fails in server.js: for a caller who is not authenticated the
  answer is 401, and for an authenticated one whose number of seats has no number it is 500.
\<close>

theorem start_not_before_end_rejected_counterexample:
  "parseToNumber lib (field (anon body_late) ''start_ts'') = Some (Fin 1735776000000) \<and>
   parseToNumber lib (field (anon body_late) ''end_ts'') = Some (Fin 1735689600000) \<and>
   num_ge (Fin 1735776000000) (Fin 1735689600000) \<and>
   createElection lib ev0 st_ann (anon body_late) = (err 401 ''Missing or invalid token'', st_ann) \<and>
   parseToNumber lib (field (as_ann body_late_seats) ''start_ts'') = Some (Fin 1735776000000) \<and>
   parseToNumber lib (field (as_ann body_late_seats) ''end_ts'') = Some (Fin 1735689600000) \<and>
   createElection lib ev0 st_ann (as_ann body_late_seats) = (err 500 ''Server error'', st_ann)"
  by (simp add: lib_def ev0_def ann_def st_ann_def anon_def as_ann_def body_late_def
      body_late_seats_def value_defs parseToNumber_def normalized_def createElection_def
      requireAuth_def getUserFromAuthHeader_def)

section \<open>Normalizing the timestamps\<close>



lemma parseToNumber_given_Some: "timestamp_given rt v \<Longrightarrow> parseToNumber rt v \<noteq> None"
  by (cases v) (auto simp: timestamp_given_def parseToNumber_def)


lemma those_None_iff: "those xs = None \<longleftrightarrow> None \<in> set xs"
  by (induction xs) (auto split: option.splits)

lemma mk_candidate_None_iff:
  "mk_candidate rt i c = None \<longleftrightarrow>
     nullish c \<or> js_String rt (js_or (js_get c ''name'') (JStr [])) = None"
  by (simp add: mk_candidate_def)

lemma candidates_thrown_iff:
  "length is = length cs \<Longrightarrow>
   None \<in> set (map2 (mk_candidate rt) is cs) \<longleftrightarrow>
     \<not> list_all (\<lambda>c. \<not> nullish c \<and> js_String rt (js_or (js_get c ''name'') (JStr [])) \<noteq> None)
         cs"
  by (induction "is" cs rule: list_induct2) (auto simp: mk_candidate_def)

lemma candidates_built_iff:
  "length is = length cs \<Longrightarrow>
   those (map2 (mk_candidate rt) is cs) \<noteq> None \<longleftrightarrow>
     list_all (\<lambda>c. \<not> nullish c \<and> js_String rt (js_or (js_get c ''name'') (JStr [])) \<noteq> None) cs"
  unfolding those_None_iff by (simp only: candidates_thrown_iff) simp

lemma elems_default: "elems (js_default v (JArr [])) = elems v"
  by (cases v) (simp_all add: js_default_def)


lemma mk_election_Some_iff:
  "mk_election rt ev u req s e seats \<noteq> None \<longleftrightarrow>
     js_String rt (field req ''companyName'') \<noteq> None \<and>
     js_String rt (js_or (js_default (field req ''description'') (JStr [])) (JStr [])) \<noteq> None \<and>
     list_all (\<lambda>c. \<not> nullish c \<and> js_String rt (js_or (js_get c ''name'') (JStr [])) \<noteq> None)
       (elems (field req ''candidates''))"
proof -
  let ?cs = "elems (field req ''candidates'')"
  have l: "length (map (uuidv4 ev) [1 ..< Suc (length ?cs)]) = length ?cs"
    by (simp del: upt_Suc)
  show ?thesis
    using candidates_built_iff[OF l, of rt]
    by (auto simp: mk_election_def Let_def elems_default simp del: upt_Suc split: option.splits)
qed



lemma election_js_get:
  "js_get (jsonify (JObj [(''success'', JBool True), (''election'', election_js el)]))
     ''election'' = jsonify (election_js el)"
  by (simp add: election_js_def)

lemma election_js_timestamps:
  "js_get (jsonify (election_js el)) ''start_ts'' = js_of_number (e_start_ts el)"
  "js_get (jsonify (election_js el)) ''end_ts'' = js_of_number (e_end_ts el)"
  "js_get (jsonify (election_js el)) ''id'' = JStr (e_id el)"
  by (simp_all add: election_js_def js_of_number_def split: option.splits)

text \<open>
  What the short-id handler does with a start or an end that is no valid date: the
  comparison of line 39 is false for an invalid date, the identifier is allocated, and
  \<^verbatim>\<open>toISOString\<close> throws; the answer is 500 and nothing is inserted.
\<close>

lemma createElectionB_invalid_date:
  assumes "truthy (field req ''title'')" "truthy (field req ''start'')" "truthy (field req ''end'')"
    and "newDate rt (field req ''start'') = Some None \<and> newDate rt (field req ''end'') \<noteq> None \<or>
         newDate rt (field req ''start'') \<noteq> None \<and> newDate rt (field req ''end'') = Some None"
  shows "status (fst (createElectionB rt ev d req)) = 500"
    and "snd (createElectionB rt ev d req) = d"
  using assms
  by (auto simp: createElectionB_def Let_def err_def date_ge_def split: option.splits)




section \<open>Login failures\<close>

lemma compareSync_string: "\<not> is_string p \<Longrightarrow> compareSync rt p h = None"
  by (cases p) (simp_all add: compareSync_def)

lemma login_unknown:
  assumes "truthy (field req ''identifier'')" "truthy (field req ''password'')"
    and "registered st (field req ''identifier'') = None"
  shows "login rt ev st req = (err 401 ''Invalid credentials'', st)"
  using assms by (simp add: login_def registered_def Let_def)

lemma login_known:
  assumes "truthy (field req ''identifier'')" "truthy (field req ''password'')"
    and "registered st (field req ''identifier'') = Some u"
  shows "compareSync rt (field req ''password'') (u_password_hash u) = Some False \<Longrightarrow>
         login rt ev st req = (err 401 ''Invalid credentials'', st)"
    and "compareSync rt (field req ''password'') (u_password_hash u) = None \<Longrightarrow>
         login rt ev st req = (err 500 ''Internal server error'', st)"
  using assms by (simp_all add: login_def registered_def Let_def)

text \<open>
  C5: the code breaks the claim. Take two Authenticate calls that both carry an identifier
  and a password, one with an identifier that belongs to no user and one with an identifier
  that belongs to a user. The first is answered 401 with the generic body. The second is
  answered the same when the comparison with the stored hash returns false; but when the
  comparison throws, as it does for every password that is no string, the second is
  answered 500 with another body, and the two answers tell the caller which identifier is
  registered. The store is left as it was in every case.
\<close>

theorem login_failures_distinguishable:
  "truthy (field r1 ''identifier'') \<and> truthy (field r1 ''password'') \<and>
   registered st (field r1 ''identifier'') = None \<and>
   truthy (field r2 ''identifier'') \<and> truthy (field r2 ''password'') \<and>
   registered st (field r2 ''identifier'') = Some u \<longrightarrow>
     login rt e1 st r1 = (err 401 ''Invalid credentials'', st) \<and>
     (compareSync rt (field r2 ''password'') (u_password_hash u) = Some False \<longrightarrow>
        login rt e2 st r2 = (err 401 ''Invalid credentials'', st) \<and>
        fst (login rt e1 st r1) = fst (login rt e2 st r2)) \<and>
     (compareSync rt (field r2 ''password'') (u_password_hash u) = None \<longrightarrow>
        login rt e2 st r2 = (err 500 ''Internal server error'', st) \<and>
        fst (login rt e1 st r1) \<noteq> fst (login rt e2 st r2)) \<and>
     (\<not> is_string (field r2 ''password'') \<longrightarrow>
        compareSync rt (field r2 ''password'') (u_password_hash u) = None)"
  using login_unknown[of r1 st rt e1] login_known[of r2 st u rt e2]
    compareSync_string[of "field r2 ''password''" rt "u_password_hash u"]
  by (auto simp: err_def)

theorem login_failures_distinguishable_witness:
  "registered st_ann (field (anon login_ghost_number) ''identifier'') = None \<and>
   registered st_ann (field (anon login_ann_number) ''identifier'') = Some ann \<and>
   \<not> is_string (field (anon login_ann_number) ''password'') \<and>
   login lib ev0 st_ann (anon login_ghost_number) = (err 401 ''Invalid credentials'', st_ann) \<and>
   login lib ev0 st_ann (anon login_ann_number) = (err 500 ''Internal server error'', st_ann) \<and>
   registered st_ann (field (anon login_ghost) ''identifier'') = None \<and>
   registered st_ann (field (anon login_ann_wrong) ''identifier'') = Some ann \<and>
   compareSync lib (field (anon login_ann_wrong) ''password'') (u_password_hash ann) =
     Some False \<and>
   login lib ev0 st_ann (anon login_ghost) = (err 401 ''Invalid credentials'', st_ann) \<and>
   login lib ev0 st_ann (anon login_ann_wrong) = (err 401 ''Invalid credentials'', st_ann)"
proof -
  have t: "truthy (field (anon login_ghost_number) ''identifier'')"
    "truthy (field (anon login_ghost_number) ''password'')"
    "truthy (field (anon login_ann_number) ''identifier'')"
    "truthy (field (anon login_ann_number) ''password'')"
    "truthy (field (anon login_ghost) ''identifier'')"
    "truthy (field (anon login_ghost) ''password'')"
    "truthy (field (anon login_ann_wrong) ''identifier'')"
    "truthy (field (anon login_ann_wrong) ''password'')"
    by (simp_all add: anon_def login_ghost_number_def login_ann_number_def login_ghost_def
        login_ann_wrong_def value_defs)
  have r: "registered st_ann (field (anon login_ghost_number) ''identifier'') = None"
    "registered st_ann (field (anon login_ann_number) ''identifier'') = Some ann"
    "registered st_ann (field (anon login_ghost) ''identifier'') = None"
    "registered st_ann (field (anon login_ann_wrong) ''identifier'') = Some ann"
    by (simp_all add: ann_def st_ann_def anon_def login_ghost_number_def login_ann_number_def
        login_ghost_def login_ann_wrong_def value_defs registered_def js_of_opt_def)
  have n: "\<not> is_string (field (anon login_ann_number) ''password'')"
    by (simp add: anon_def login_ann_number_def value_defs)
  have c: "compareSync lib (field (anon login_ann_wrong) ''password'') (u_password_hash ann) =
      Some False"
    by (simp add: lib_def ann_def anon_def login_ann_wrong_def value_defs compareSync_def)
  note N = login_failures_distinguishable[where ?r1.0 = "anon login_ghost_number"
      and ?r2.0 = "anon login_ann_number" and st = st_ann and u = ann and rt = lib
      and ?e1.0 = ev0 and ?e2.0 = ev0]
  note W = login_failures_distinguishable[where ?r1.0 = "anon login_ghost"
      and ?r2.0 = "anon login_ann_wrong" and st = st_ann and u = ann and rt = lib
      and ?e1.0 = ev0 and ?e2.0 = ev0]
  from N t r n have
    "login lib ev0 st_ann (anon login_ghost_number) = (err 401 ''Invalid credentials'', st_ann) \<and>
     login lib ev0 st_ann (anon login_ann_number) = (err 500 ''Internal server error'', st_ann)"
    by simp
  moreover from W t r c have
    "login lib ev0 st_ann (anon login_ghost) = (err 401 ''Invalid credentials'', st_ann) \<and>
     login lib ev0 st_ann (anon login_ann_wrong) = (err 401 ''Invalid credentials'', st_ann)"
    by simp
  ultimately show ?thesis using r n c by blast
qed

section \<open>Registration and the uniqueness of emails and phones\<close>

lemma register_checks_status:
  "register_checks rt req = Some r \<Longrightarrow> status r = 400 \<or> status r = 500"
  by (auto simp: register_checks_def Let_def err_def split: if_splits option.splits bool.splits)

lemma new_user_contacts:
  "new_user rt ev req em ph = Some u \<Longrightarrow> u_email u = em \<and> u_phone u = ph"
  by (auto simp: new_user_def Let_def split: option.splits if_splits)

lemma register_cases:
  "(snd (register rt ev st req) = st \<and> status (fst (register rt ev st req)) \<noteq> 201) \<or>
   (\<exists>em ph u. register_checks rt req = None \<and> trimmed (field req ''email'') = Some em \<and>
      trimmed (field req ''phone'') = Some ph \<and>
      (em = None \<or> find (\<lambda>u. u_email u = em) (users st) = None) \<and>
      (ph = None \<or> find (\<lambda>u. u_phone u = ph) (users st) = None) \<and>
      new_user rt ev req em ph = Some u \<and>
      status (fst (register rt ev st req)) = 201 \<and>
      snd (register rt ev st req) =
        audit (now ev) (''register | user:'' @ u_id u) (st\<lparr>users := users st @ [u]\<rparr>))"
proof (cases "register_checks rt req")
  case (Some r)
  with register_checks_status[OF Some] show ?thesis
    by (auto simp: register_def)
next
  case None
  show ?thesis
  proof (cases "trimmed (field req ''email'')")
    case a: None
    with \<open>register_checks rt req = None\<close> show ?thesis by (simp add: register_def err_def)
  next
    case a: (Some em)
    show ?thesis
    proof (cases "trimmed (field req ''phone'')")
      case b: None
      with None a show ?thesis by (simp add: register_def err_def)
    next
      case b: (Some ph)
      with None a show ?thesis
        by (cases "new_user rt ev req em ph") (auto simp: register_def err_def Let_def)
    qed
  qed
qed

lemma audit_users: "users (audit t l st) = users st"
  by (simp add: audit_def)

lemma register_users:
  "users (snd (register rt ev st req)) = users st \<or>
   (\<exists>u. users (snd (register rt ev st req)) = users st @ [u])"
  using register_cases[of rt ev st req] by (auto simp: audit_users)

lemma login_users: "users (snd (login rt ev st req)) = users st"
  by (simp add: login_def Let_def audit_users split: option.splits)

lemma createElection_users: "users (snd (createElection rt ev st req)) = users st"
  using createElection_store[of rt ev st req] by (auto simp: audit_users)

lemma run_call_users: "\<exists>us. users (run_call rt c st) = users st @ us"
proof (cases c)
  case (Register ev req)
  with register_users[of rt ev st req] show ?thesis by auto
next
  case (Login ev req)
  then show ?thesis by (simp add: login_users)
next
  case (CreateElection ev req)
  then show ?thesis by (simp add: createElection_users)
qed

lemma run_users: "\<exists>us. users (run rt calls st) = users st @ us"
proof (induction calls arbitrary: st)
  case Nil
  show ?case by (simp add: run_def)
next
  case (Cons c calls)
  from run_call_users[of rt c st] obtain us where a: "users (run_call rt c st) = users st @ us"
    by blast
  from Cons[of "run_call rt c st"] obtain vs where
    "users (run rt calls (run_call rt c st)) = users (run_call rt c st) @ vs"
    by blast
  with a show ?case by (simp add: run_def)
qed

lemma checks_trimmed_email:
  "register_checks rt req = None \<Longrightarrow> trimmed (field req ''email'') \<noteq> None"
  by (auto simp: register_checks_def Let_def both_blank_def blank_def trimmed_def
           split: if_splits option.splits bool.splits)

lemma register_email_taken:
  assumes e: "field req ''email'' = JStr e" "e \<noteq> []"
    and u: "\<exists>u \<in> set (users st). u_email u = Some (trim e)"
  shows "snd (register rt ev st req) = st"
    and "status (fst (register rt ev st req)) \<noteq> 201"
    and "register_checks rt req = None \<Longrightarrow> status (fst (register rt ev st req)) = 409"
proof -
  have t: "trimmed (field req ''email'') = Some (Some (trim e))"
    using e by (simp add: trimmed_def)
  have f: "find (\<lambda>u. u_email u = Some (trim e)) (users st) \<noteq> None"
    using u by (auto simp: find_None_iff)
  show "snd (register rt ev st req) = st"
    using t f by (simp add: register_def split: option.splits)
  show "status (fst (register rt ev st req)) \<noteq> 201"
    using t f register_checks_status[of rt req]
    by (auto simp: register_def err_def split: option.splits)
  show "register_checks rt req = None \<Longrightarrow> status (fst (register rt ev st req)) = 409"
    using t f by (simp add: register_def err_def)
qed

lemma register_phone_taken:
  assumes p: "field req ''phone'' = JStr p" "p \<noteq> []"
    and u: "\<exists>u \<in> set (users st). u_phone u = Some (trim p)"
  shows "snd (register rt ev st req) = st"
    and "status (fst (register rt ev st req)) \<noteq> 201"
    and "register_checks rt req = None \<Longrightarrow> status (fst (register rt ev st req)) = 409"
proof -
  have t: "trimmed (field req ''phone'') = Some (Some (trim p))"
    using p by (simp add: trimmed_def)
  have f: "find (\<lambda>u. u_phone u = Some (trim p)) (users st) \<noteq> None"
    using u by (auto simp: find_None_iff)
  from register_cases[of rt ev st req] t f
  show "snd (register rt ev st req) = st" and "status (fst (register rt ev st req)) \<noteq> 201"
    by auto
  show "register_checks rt req = None \<Longrightarrow> status (fst (register rt ev st req)) = 409"
    using t f checks_trimmed_email[of rt req]
    by (auto simp: register_def err_def split: option.splits)
qed

lemma register_success_email:
  assumes "status (fst (register rt ev st req)) = 201" "truthy (field req ''email'')"
  shows "\<exists>e. field req ''email'' = JStr e \<and> e \<noteq> [] \<and>
             (\<exists>u \<in> set (users (snd (register rt ev st req))). u_email u = Some (trim e))"
proof -
  from register_cases[of rt ev st req] assms(1) obtain em ph u where
    t: "trimmed (field req ''email'') = Some em"
    and n: "new_user rt ev req em ph = Some u"
    and s: "snd (register rt ev st req) =
        audit (now ev) (''register | user:'' @ u_id u) (st\<lparr>users := users st @ [u]\<rparr>)"
    by auto
  from t assms(2) obtain e where e: "field req ''email'' = JStr e" "em = Some (trim e)"
    by (cases "field req ''email''") (auto simp: trimmed_def)
  from e assms(2) have "e \<noteq> []" by simp
  moreover have "u_email u = Some (trim e)"
    using e new_user_contacts[OF n] by simp
  ultimately show ?thesis using e s by (auto simp: audit_users)
qed

lemma register_success_phone:
  assumes "status (fst (register rt ev st req)) = 201" "truthy (field req ''phone'')"
  shows "\<exists>p. field req ''phone'' = JStr p \<and> p \<noteq> [] \<and>
             (\<exists>u \<in> set (users (snd (register rt ev st req))). u_phone u = Some (trim p))"
proof -
  from register_cases[of rt ev st req] assms(1) obtain em ph u where
    t: "trimmed (field req ''phone'') = Some ph"
    and n: "new_user rt ev req em ph = Some u"
    and s: "snd (register rt ev st req) =
        audit (now ev) (''register | user:'' @ u_id u) (st\<lparr>users := users st @ [u]\<rparr>)"
    by auto
  from t assms(2) obtain p where p: "field req ''phone'' = JStr p" "ph = Some (trim p)"
    by (cases "field req ''phone''") (auto simp: trimmed_def)
  from p assms(2) have "p \<noteq> []" by simp
  moreover have "u_phone u = Some (trim p)"
    using p new_user_contacts[OF n] by simp
  ultimately show ?thesis using p s by (auto simp: audit_users)
qed

lemma map_filter_snoc:
  "List.map_filter f (xs @ [x]) = List.map_filter f xs @ (case f x of None \<Rightarrow> [] | Some y \<Rightarrow> [y])"
  by (simp add: List.map_filter_def split: option.splits)

lemma set_map_filter_iff: "y \<in> set (List.map_filter f xs) \<longleftrightarrow> (\<exists>x \<in> set xs. f x = Some y)"
  by (auto simp: List.map_filter_def image_iff)

lemma distinct_map_filter_snoc:
  assumes "distinct (List.map_filter f xs)" "f x = None \<or> find (\<lambda>u. f u = f x) xs = None"
  shows "distinct (List.map_filter f (xs @ [x]))"
  using assms by (auto simp: map_filter_snoc set_map_filter_iff find_None_iff split: option.splits)

lemma register_unique: "unique_contacts st \<Longrightarrow> unique_contacts (snd (register rt ev st req))"
  using register_cases[of rt ev st req]
  by (auto simp: unique_contacts_def audit_users dest!: new_user_contacts
           intro!: distinct_map_filter_snoc)

lemma run_call_unique: "unique_contacts st \<Longrightarrow> unique_contacts (run_call rt c st)"
  by (cases c) (simp_all add: register_unique, simp_all add: unique_contacts_def login_users
      createElection_users)

lemma run_unique: "unique_contacts st \<Longrightarrow> unique_contacts (run rt calls st)"
  unfolding run_def by (induction calls arbitrary: st) (simp_all add: run_call_unique)

lemma bob_registered: "status (fst (register lib ev0 st_ann (anon body_bob))) = 201"
  by (simp add: lib_def ev0_def ann_def st_ann_def anon_def body_bob_def value_defs register_defs
      audit_def)

text \<open>
  C4, as the code has it. After a registration has succeeded with an email (a phone), and
  whatever requests follow, a Register call with the same email (the same phone) fails and
  leaves the store as it was: with 409 when it passes the field checks, which come first,
  and else with the answer of the checks, a 400 (a 500 when a check throws). Registration
  keeps emails and phones unique, and so they are in every store that grows from the empty
  one.
\<close>

theorem registered_contact_conflicts:
  "(status (fst (register rt ev st req)) = 201 \<and>
    (truthy (field req ''email'') \<and> field req' ''email'' = field req ''email'' \<or>
     truthy (field req ''phone'') \<and> field req' ''phone'' = field req ''phone'') \<longrightarrow>
      (let later = run rt calls (snd (register rt ev st req)); out = register rt ev' later req'
       in snd out = later \<and> status (fst out) \<noteq> 201 \<and>
          (register_checks rt req' = None \<longrightarrow> status (fst out) = 409) \<and>
          (\<forall>r. register_checks rt req' = Some r \<longrightarrow>
               fst out = r \<and> (status r = 400 \<or> status r = 500)))) \<and>
   (unique_contacts st \<longrightarrow> unique_contacts (snd (register rt ev st req))) \<and>
   unique_contacts (run rt calls \<lparr>users = [], elections = [], audit_log = []\<rparr>)"
proof (intro conjI impI)
  let ?st1 = "snd (register rt ev st req)"
  let ?later = "run rt calls ?st1"
  assume a: "status (fst (register rt ev st req)) = 201 \<and>
    (truthy (field req ''email'') \<and> field req' ''email'' = field req ''email'' \<or>
     truthy (field req ''phone'') \<and> field req' ''phone'' = field req ''phone'')"
  from run_users[of rt calls ?st1] obtain us where us: "users ?later = users ?st1 @ us"
    by blast
  have chk: "\<forall>r. register_checks rt req' = Some r \<longrightarrow>
               fst (register rt ev' ?later req') = r \<and> (status r = 400 \<or> status r = 500)"
    using register_checks_status[of rt req'] by (auto simp: register_def)
  from a consider
    (email) "truthy (field req ''email'')" "field req' ''email'' = field req ''email''"
    | (phone) "truthy (field req ''phone'')" "field req' ''phone'' = field req ''phone''"
    by blast
  then have "snd (register rt ev' ?later req') = ?later \<and>
        status (fst (register rt ev' ?later req')) \<noteq> 201 \<and>
        (register_checks rt req' = None \<longrightarrow> status (fst (register rt ev' ?later req')) = 409)"
  proof cases
    case email
    from register_success_email[of rt ev st req] a email(1) obtain e where
      e: "field req ''email'' = JStr e" "e \<noteq> []"
      and "\<exists>u \<in> set (users ?st1). u_email u = Some (trim e)"
      by blast
    with us have "\<exists>u \<in> set (users ?later). u_email u = Some (trim e)"
      by auto
    with register_email_taken[of req' e ?later rt ev'] e email(2) show ?thesis
      by simp
  next
    case phone
    from register_success_phone[of rt ev st req] a phone(1) obtain p where
      p: "field req ''phone'' = JStr p" "p \<noteq> []"
      and "\<exists>u \<in> set (users ?st1). u_phone u = Some (trim p)"
      by blast
    with us have "\<exists>u \<in> set (users ?later). u_phone u = Some (trim p)"
      by auto
    with register_phone_taken[of req' p ?later rt ev'] p phone(2) show ?thesis
      by simp
  qed
  with chk show
    "let later = run rt calls (snd (register rt ev st req)); out = register rt ev' later req'
       in snd out = later \<and> status (fst out) \<noteq> 201 \<and>
          (register_checks rt req' = None \<longrightarrow> status (fst out) = 409) \<and>
          (\<forall>r. register_checks rt req' = Some r \<longrightarrow>
               fst out = r \<and> (status r = 400 \<or> status r = 500))"
    by (simp add: Let_def)
next
  assume "unique_contacts st"
  then show "unique_contacts (snd (register rt ev st req))"
    by (rule register_unique)
next
  show "unique_contacts (run rt calls \<lparr>users = [], elections = [], audit_log = []\<rparr>)"
    by (rule run_unique) (simp add: unique_contacts_def)
qed

theorem registered_contact_conflicts_witness:
  "status (fst (register lib ev0 st_ann (anon body_bob))) = 201 \<and>
   truthy (field (anon body_bob) ''email'') \<and> truthy (field (anon body_bob) ''phone'') \<and>
   field (anon body_bob_again) ''email'' = field (anon body_bob) ''email'' \<and>
   field (anon body_bob_phone) ''phone'' = field (anon body_bob) ''phone'' \<and>
   register_checks lib (anon body_bob_again) = None \<and>
   register_checks lib (anon body_bob_phone) = None \<and>
   status (fst (register lib ev0 st_bob_later (anon body_bob_again))) = 409 \<and>
   snd (register lib ev0 st_bob_later (anon body_bob_again)) = st_bob_later \<and>
   status (fst (register lib ev0 st_bob_later (anon body_bob_phone))) = 409 \<and>
   snd (register lib ev0 st_bob_later (anon body_bob_phone)) = st_bob_later \<and>
   register_checks lib (anon body_bob_short) =
     Some (err 400 ''Name is required and must be at least 2 characters.'') \<and>
   fst (register lib ev0 st_bob_later (anon body_bob_short)) =
     err 400 ''Name is required and must be at least 2 characters.'' \<and>
   unique_contacts st_ann \<and> unique_contacts st_bob"
proof -
  have ok: "status (fst (register lib ev0 st_ann (anon body_bob))) = 201"
    by (rule bob_registered)
  have f: "truthy (field (anon body_bob) ''email'')" "truthy (field (anon body_bob) ''phone'')"
    "field (anon body_bob_again) ''email'' = field (anon body_bob) ''email''"
    "field (anon body_bob_phone) ''phone'' = field (anon body_bob) ''phone''"
    "field (anon body_bob_short) ''email'' = field (anon body_bob) ''email''"
    by (simp_all add: lib_def ev0_def ann_def st_ann_def anon_def body_bob_def body_bob_again_def
        body_bob_short_def body_bob_phone_def login_ann_def value_defs)
  have c: "register_checks lib (anon body_bob_again) = None"
    "register_checks lib (anon body_bob_phone) = None"
    by (simp_all add: lib_def ev0_def ann_def st_ann_def anon_def body_bob_def body_bob_again_def
        body_bob_short_def body_bob_phone_def login_ann_def value_defs register_defs)
  have s: "register_checks lib (anon body_bob_short) =
     Some (err 400 ''Name is required and must be at least 2 characters.'')"
    by (simp add: lib_def ev0_def ann_def st_ann_def anon_def body_bob_def body_bob_again_def
        body_bob_short_def body_bob_phone_def login_ann_def value_defs register_checks_def)
  have u: "unique_contacts st_ann"
    by (simp add: unique_contacts_def st_ann_def ann_def)
  note E = registered_contact_conflicts[of lib ev0 st_ann "anon body_bob" "anon body_bob_again"
    "[Login ev0 (anon login_ann)]" ev0]
  note P = registered_contact_conflicts[of lib ev0 st_ann "anon body_bob" "anon body_bob_phone"
    "[Login ev0 (anon login_ann)]" ev0]
  note S = registered_contact_conflicts[of lib ev0 st_ann "anon body_bob" "anon body_bob_short"
    "[Login ev0 (anon login_ann)]" ev0]
  from E ok f c have
    "status (fst (register lib ev0 st_bob_later (anon body_bob_again))) = 409 \<and>
     snd (register lib ev0 st_bob_later (anon body_bob_again)) = st_bob_later"
    by (simp add: Let_def st_bob_later_def st_bob_def)
  moreover from P ok f c have
    "status (fst (register lib ev0 st_bob_later (anon body_bob_phone))) = 409 \<and>
     snd (register lib ev0 st_bob_later (anon body_bob_phone)) = st_bob_later"
    by (simp add: Let_def st_bob_later_def st_bob_def)
  moreover from S ok f s have
    "fst (register lib ev0 st_bob_later (anon body_bob_short)) =
       err 400 ''Name is required and must be at least 2 characters.''"
    by (simp add: Let_def st_bob_later_def st_bob_def)
  moreover from E u have "unique_contacts st_bob"
    by (simp add: st_bob_def)
  ultimately show ?thesis using ok f c s u by simp
qed

text \<open>
  The claim as it was stated fails for a later call that carries the registered email and a
  name of one letter: the field checks answer 400 before the store is read.
\<close>

theorem registered_contact_conflicts_counterexample:
  "status (fst (register lib ev0 st_ann (anon body_bob))) = 201 \<and>
   field (anon body_bob_short) ''email'' = field (anon body_bob) ''email'' \<and>
   register lib ev0 st_bob (anon body_bob_short) =
     (err 400 ''Name is required and must be at least 2 characters.'', st_bob)"
proof -
  have "field (anon body_bob_short) ''email'' = field (anon body_bob) ''email''"
    by (simp add: lib_def ev0_def ann_def st_ann_def anon_def body_bob_def body_bob_short_def
        value_defs)
  moreover have "register lib ev0 st_bob (anon body_bob_short) =
     (err 400 ''Name is required and must be at least 2 characters.'', st_bob)"
    by (simp add: lib_def ev0_def ann_def st_ann_def anon_def body_bob_def body_bob_short_def
        value_defs register_def register_checks_def)
  ultimately show ?thesis using bob_registered by simp
qed

section \<open>Creating an election and reading it back\<close>

lemma find_snoc_fresh:
  "i \<notin> set (map f xs) \<Longrightarrow> f x = i \<Longrightarrow> find (\<lambda>y. f y = i) (xs @ [x]) = Some x"
  by (induction xs) auto

lemma find_append_first: "find P xs = Some x \<Longrightarrow> find P (xs @ ys) = Some x"
  by (induction xs) auto

lemma register_elections: "elections (snd (register rt ev st req)) = elections st"
  using register_cases[of rt ev st req] by (auto simp: audit_def)

lemma login_elections: "elections (snd (login rt ev st req)) = elections st"
  by (simp add: login_def Let_def audit_def split: option.splits)

lemma createElection_elections:
  "\<exists>es. elections (snd (createElection rt ev st req)) = elections st @ es"
  using createElection_store[of rt ev st req] by (auto simp: audit_def)

lemma run_call_elections: "\<exists>es. elections (run_call rt c st) = elections st @ es"
  by (cases c) (simp_all add: register_elections login_elections createElection_elections)

lemma run_elections: "\<exists>es. elections (run rt calls st) = elections st @ es"
proof (induction calls arbitrary: st)
  case Nil
  show ?case by (simp add: run_def)
next
  case (Cons c calls)
  from run_call_elections[of rt c st] obtain es where
    a: "elections (run_call rt c st) = elections st @ es"
    by blast
  from Cons[of "run_call rt c st"] obtain fs where
    "elections (run rt calls (run_call rt c st)) = elections (run_call rt c st) @ fs"
    by blast
  with a show ?case by (simp add: run_def)
qed

lemma mk_candidate_returned:
  "mk_candidate rt i c = Some x \<Longrightarrow> jsonify (candidate_js x) = returned_candidate rt i c"
  by (auto simp: mk_candidate_def candidate_js_def returned_candidate_def name_text_def
           split: if_splits)

lemma candidates_returned:
  "length is = length cs \<Longrightarrow> map2 (mk_candidate rt) is cs = map Some xs \<Longrightarrow>
   map (\<lambda>x. jsonify (candidate_js x)) xs = map2 (returned_candidate rt) is cs"
proof (induction "is" cs arbitrary: xs rule: list_induct2)
  case Nil
  then show ?case by simp
next
  case (Cons i "is" c cs)
  from Cons.prems obtain y ys where
    xs: "xs = y # ys" and y: "mk_candidate rt i c = Some y"
    and ys: "map2 (mk_candidate rt) is cs = map Some ys"
    by (cases xs) auto
  from Cons.IH[OF ys] mk_candidate_returned[OF y] show ?case
    by (simp add: xs)
qed

lemma mk_election_candidates:
  assumes "mk_election rt ev u req s e seats = Some el"
  shows "map2 (mk_candidate rt) (map (uuidv4 ev) [1 ..< Suc (length (elems
           (field req ''candidates'')))]) (elems (field req ''candidates'')) =
         map Some (e_candidates el)"
  using assms
  by (auto simp: mk_election_def Let_def elems_default those_Some_iff simp del: upt_Suc
           split: option.splits)

lemma election_js_candidates:
  "js_get (jsonify (election_js el)) ''candidates'' =
     JArr (map (\<lambda>x. jsonify (candidate_js x)) (e_candidates el))"
  by (simp add: election_js_def js_of_number_def comp_def split: option.splits)

lemma returned_ids:
  "length is = length cs \<Longrightarrow>
   map (\<lambda>x. js_get x ''id'') (map2 (returned_candidate rt) is cs) = map JStr is"
  by (induction "is" cs rule: list_induct2) (simp_all add: returned_candidate_def)

lemma returned_fields:
  "js_get (returned_candidate rt i c) ''name'' = JStr (name_text rt c)"
  "js_get (returned_candidate rt i c) ''description'' =
     jsonify (js_or (js_get c ''description'') (JStr []))"
  "js_get (returned_candidate rt i c) ''party'' = jsonify (js_or (js_get c ''party'') (JStr []))"
  "js_get (returned_candidate rt i c) ''manifesto'' =
     jsonify (js_or (js_get c ''manifesto'') (JStr []))"
  "js_get (returned_candidate rt i c) ''votes'' = JNum (Fin 0)"
  by (simp_all add: returned_candidate_def)

text \<open>
  C8, as the code has it. After a CreateElection of server.js that succeeded, with an
  election identifier that no stored election had, and after whatever requests follow,
  GetElection on the identifier returned answers 200 with the election as it was returned.
  Its candidates are those submitted, as many and in the same order, each with the
  identifier drawn for it in turn (distinct when the generator draws distinct ones), no
  votes, the submitted name as a string, trimmed, and the submitted description, party and
  manifesto as JSON has them: a string is returned as it was submitted, an absent or falsy
  field as the empty string, and a number that is not finite as \<^verbatim>\<open>null\<close>.
\<close>

theorem createElection_roundtrip:
  "(status (fst (createElection rt ev st req)) = 201 \<and>
    uuidv4 ev 0 \<notin> set (map e_id (elections st)) \<longrightarrow>
     (let cs = elems (field req ''candidates'');
          ids = map (uuidv4 ev) [1 ..< Suc (length cs)];
          created = js_get (json (fst (createElection rt ev st req))) ''election'';
          answer = getElection (run rt calls (snd (createElection rt ev st req))) (uuidv4 ev 0)
      in js_get created ''id'' = JStr (uuidv4 ev 0) \<and>
         status answer = 200 \<and>
         js_get (json answer) ''election'' = created \<and>
         js_get created ''candidates'' = JArr (map2 (returned_candidate rt) ids cs) \<and>
         length (map2 (returned_candidate rt) ids cs) = length cs \<and>
         map (\<lambda>x. js_get x ''id'') (map2 (returned_candidate rt) ids cs) = map JStr ids \<and>
         (distinct ids \<longrightarrow>
            distinct (map (\<lambda>x. js_get x ''id'') (map2 (returned_candidate rt) ids cs))) \<and>
         list_all (\<lambda>c. js_String rt (js_or (js_get c ''name'') (JStr [])) \<noteq> None) cs)) \<and>
   js_get (returned_candidate rt i c) ''votes'' = JNum (Fin 0) \<and>
   js_get (returned_candidate rt i c) ''name'' = JStr (name_text rt c) \<and>
   (js_String rt (js_or (js_get c ''name'') (JStr [])) = Some n \<longrightarrow> name_text rt c = trim n) \<and>
   (js_get c ''name'' = JStr n \<longrightarrow> name_text rt c = trim n) \<and>
   (k \<in> {''description'', ''party'', ''manifesto''} \<longrightarrow>
      js_get (returned_candidate rt i c) k = jsonify (js_or (js_get c k) (JStr [])) \<and>
      (js_get c k = JStr s \<longrightarrow> js_get (returned_candidate rt i c) k = JStr s) \<and>
      (\<not> truthy (js_get c k) \<longrightarrow> js_get (returned_candidate rt i c) k = JStr []) \<and>
      (js_get c k = JNum PosInf \<or> js_get c k = JNum NegInf \<longrightarrow>
         js_get (returned_candidate rt i c) k = JNull))"
proof (intro conjI impI)
  assume a: "status (fst (createElection rt ev st req)) = 201 \<and>
    uuidv4 ev 0 \<notin> set (map e_id (elections st))"
  let ?cs = "elems (field req ''candidates'')"
  let ?ids = "map (uuidv4 ev) [1 ..< Suc (length ?cs)]"
  let ?st1 = "snd (createElection rt ev st req)"
  from a createElection_store[of rt ev st req] obtain u s e seats el where
    m: "mk_election rt ev u req s e seats = Some el"
    and r: "fst (createElection rt ev st req) =
          send 201 (JObj [(''success'', JBool True), (''election'', election_js el)])"
    and s: "?st1 =
          audit (now ev) (''create-election | user:'' @ u_id u @ '' | election:'' @ e_id el)
            (st\<lparr>elections := elections st @ [el]\<rparr>)"
    by auto
  have i: "e_id el = uuidv4 ev 0"
    using m by (simp add: mk_election_creator)
  have c: "js_get (json (fst (createElection rt ev st req))) ''election'' =
      jsonify (election_js el)"
    unfolding r json_send by (rule election_js_get)
  from run_elections[of rt calls ?st1] obtain es where
    es: "elections (run rt calls ?st1) = elections ?st1 @ es"
    by blast
  have "find (\<lambda>x. e_id x = uuidv4 ev 0) (elections ?st1) = Some el"
    using a i by (simp add: s audit_def find_snoc_fresh)
  then have f: "find (\<lambda>x. e_id x = uuidv4 ev 0) (elections (run rt calls ?st1)) = Some el"
    unfolding es by (rule find_append_first)
  have g: "getElection (run rt calls ?st1) (uuidv4 ev 0) =
      send 200 (JObj [(''election'', election_js el)])"
    by (simp add: getElection_def f)
  have l: "length ?ids = length ?cs" by (simp del: upt_Suc)
  have k: "js_get (jsonify (election_js el)) ''candidates'' =
      JArr (map2 (returned_candidate rt) ?ids ?cs)"
    unfolding election_js_candidates
    using candidates_returned[OF l mk_election_candidates[OF m]] by simp
  have ids: "map (\<lambda>x. js_get x ''id'') (map2 (returned_candidate rt) ?ids ?cs) = map JStr ?ids"
    using l by (rule returned_ids)
  have d: "distinct (map (\<lambda>x. js_get x ''id'') (map2 (returned_candidate rt) ?ids ?cs))"
    if "distinct ?ids"
    unfolding ids using that by (simp add: distinct_map inj_on_def del: upt_Suc)
  have names: "list_all (\<lambda>c. js_String rt (js_or (js_get c ''name'') (JStr [])) \<noteq> None) ?cs"
    using mk_election_Some_iff[of rt ev u req s e seats] m by (simp add: list_all_iff)
  have e: "js_get (json (getElection (run rt calls ?st1) (uuidv4 ev 0))) ''election'' =
      jsonify (election_js el)"
    unfolding g json_send by (simp add: election_js_def)
  show "let cs = elems (field req ''candidates'');
          ids = map (uuidv4 ev) [1 ..< Suc (length cs)];
          created = js_get (json (fst (createElection rt ev st req))) ''election'';
          answer = getElection (run rt calls (snd (createElection rt ev st req))) (uuidv4 ev 0)
      in js_get created ''id'' = JStr (uuidv4 ev 0) \<and>
         status answer = 200 \<and>
         js_get (json answer) ''election'' = created \<and>
         js_get created ''candidates'' = JArr (map2 (returned_candidate rt) ids cs) \<and>
         length (map2 (returned_candidate rt) ids cs) = length cs \<and>
         map (\<lambda>x. js_get x ''id'') (map2 (returned_candidate rt) ids cs) = map JStr ids \<and>
         (distinct ids \<longrightarrow>
            distinct (map (\<lambda>x. js_get x ''id'') (map2 (returned_candidate rt) ids cs))) \<and>
         list_all (\<lambda>c. js_String rt (js_or (js_get c ''name'') (JStr [])) \<noteq> None) cs"
    unfolding Let_def c e
  proof (intro conjI impI)
    show "js_get (jsonify (election_js el)) ''id'' = JStr (uuidv4 ev 0)"
      by (simp add: election_js_timestamps(3) i)
    show "status (getElection (run rt calls ?st1) (uuidv4 ev 0)) = 200"
      by (simp add: g)
    show "jsonify (election_js el) = jsonify (election_js el)" ..
    show "js_get (jsonify (election_js el)) ''candidates'' =
        JArr (map2 (returned_candidate rt) ?ids ?cs)"
      by (rule k)
    show "length (map2 (returned_candidate rt) ?ids ?cs) = length ?cs"
      by (simp del: upt_Suc)
    show "map (\<lambda>x. js_get x ''id'') (map2 (returned_candidate rt) ?ids ?cs) = map JStr ?ids"
      by (rule ids)
    show "distinct (map (\<lambda>x. js_get x ''id'') (map2 (returned_candidate rt) ?ids ?cs))"
      if "distinct ?ids"
      using that by (rule d)
    show "list_all (\<lambda>c. js_String rt (js_or (js_get c ''name'') (JStr [])) \<noteq> None) ?cs"
      by (rule names)
  qed
next
  show "js_get (returned_candidate rt i c) ''votes'' = JNum (Fin 0)"
    and "js_get (returned_candidate rt i c) ''name'' = JStr (name_text rt c)"
    by (rule returned_fields)+
next
  assume "js_String rt (js_or (js_get c ''name'') (JStr [])) = Some n"
  then show "name_text rt c = trim n"
    by (simp add: name_text_def)
next
  assume "js_get c ''name'' = JStr n"
  then show "name_text rt c = trim n"
    by (cases "n = []") (simp_all add: name_text_def js_or_def trim_def)
next
  assume k: "k \<in> {''description'', ''party'', ''manifesto''}"
  then show r: "js_get (returned_candidate rt i c) k = jsonify (js_or (js_get c k) (JStr []))"
    by (auto simp: returned_candidate_def)
  show "js_get (returned_candidate rt i c) k = JStr s" if "js_get c k = JStr s"
    unfolding r using that by (simp add: js_or_def)
  show "js_get (returned_candidate rt i c) k = JStr []" if "\<not> truthy (js_get c k)"
    unfolding r using that by (simp add: js_or_def)
  show "js_get (returned_candidate rt i c) k = JNull"
    if "js_get c k = JNum PosInf \<or> js_get c k = JNum NegInf"
    unfolding r using that by (auto simp: js_or_def)
qed

theorem createElection_roundtrip_witness:
  "status (fst (createElection lib ev0 st_ann (as_ann body_A))) = 201 \<and>
   uuidv4 ev0 0 \<notin> set (map e_id (elections st_ann)) \<and>
   uuidv4 ev0 0 = ''00000000-0000-4000-8000-000000000000'' \<and>
   status (getElection
             (run lib [Login ev0 (anon login_ann), CreateElection ev0 (as_ann body_dates)] st_acme)
             ''00000000-0000-4000-8000-000000000000'') = 200 \<and>
   js_get (js_get (json (getElection
             (run lib [Login ev0 (anon login_ann), CreateElection ev0 (as_ann body_dates)] st_acme)
             ''00000000-0000-4000-8000-000000000000'')) ''election'') ''candidates'' =
     JArr [JObj [(''id'', JStr ''00000001-0000-4000-8000-000000000000''), (''name'', JStr ''Bo''),
                 (''description'', JStr []), (''party'', JStr ''P''), (''manifesto'', JStr []),
                 (''votes'', JNum (Fin 0))],
           JObj [(''id'', JStr ''00000002-0000-4000-8000-000000000000''), (''name'', JStr ''Cy''),
                 (''description'', JStr []), (''party'', JStr []), (''manifesto'', JStr ''M''),
                 (''votes'', JNum (Fin 0))],
           JObj [(''id'', JStr ''00000003-0000-4000-8000-000000000000''), (''name'', JStr ''Di''),
                 (''description'', JStr ''D''), (''party'', JStr []), (''manifesto'', JStr []),
                 (''votes'', JNum (Fin 0))]]"
proof -
  let ?calls = "[Login ev0 (anon login_ann), CreateElection ev0 (as_ann body_dates)]"
  have ok: "status (fst (createElection lib ev0 st_ann (as_ann body_A))) = 201"
    by (simp add: lib_def ev0_def ann_def st_ann_def as_ann_def body_A_def value_defs server_defs)
  have fresh: "uuidv4 ev0 0 \<notin> set (map e_id (elections st_ann))"
    by (simp add: st_ann_def)
  have i: "uuidv4 ev0 0 = ''00000000-0000-4000-8000-000000000000''"
    by (simp add: ev0_def)
  have cs: "elems (field (as_ann body_A) ''candidates'') =
      [JObj [(''name'', JStr '' Bo ''), (''party'', JStr ''P'')],
       JObj [(''name'', JStr ''Cy''), (''manifesto'', JStr ''M'')],
       JObj [(''name'', JStr ''Di''), (''description'', JStr ''D'')]]"
    by (simp add: as_ann_def body_A_def value_defs)
  have ids: "map (uuidv4 ev0) [1 ..< Suc (length (elems (field (as_ann body_A) ''candidates'')))] =
      [''00000001-0000-4000-8000-000000000000'', ''00000002-0000-4000-8000-000000000000'',
       ''00000003-0000-4000-8000-000000000000'']"
    unfolding cs by (simp add: ev0_def upt_rec)
  from createElection_roundtrip[of lib ev0 st_ann "as_ann body_A" ?calls "[]" JNull "[]" "[]" "[]"]
    ok fresh
  have "status (getElection (run lib ?calls st_acme) (uuidv4 ev0 0)) = 200 \<and>
    js_get (js_get (json (getElection (run lib ?calls st_acme) (uuidv4 ev0 0))) ''election'')
      ''candidates'' =
      JArr (map2 (returned_candidate lib)
              (map (uuidv4 ev0) [1 ..< Suc (length (elems (field (as_ann body_A) ''candidates'')))])
              (elems (field (as_ann body_A) ''candidates'')))"
    unfolding Let_def st_acme_def by simp
  then have "status (getElection (run lib ?calls st_acme) (uuidv4 ev0 0)) = 200 \<and>
    js_get (js_get (json (getElection (run lib ?calls st_acme) (uuidv4 ev0 0))) ''election'')
      ''candidates'' =
     JArr [JObj [(''id'', JStr ''00000001-0000-4000-8000-000000000000''), (''name'', JStr ''Bo''),
                 (''description'', JStr []), (''party'', JStr ''P''), (''manifesto'', JStr []),
                 (''votes'', JNum (Fin 0))],
           JObj [(''id'', JStr ''00000002-0000-4000-8000-000000000000''), (''name'', JStr ''Cy''),
                 (''description'', JStr []), (''party'', JStr []), (''manifesto'', JStr ''M''),
                 (''votes'', JNum (Fin 0))],
           JObj [(''id'', JStr ''00000003-0000-4000-8000-000000000000''), (''name'', JStr ''Di''),
                 (''description'', JStr ''D''), (''party'', JStr []), (''manifesto'', JStr []),
                 (''votes'', JNum (Fin 0))]]"
    unfolding ids unfolding cs
    by (simp add: returned_candidate_def name_text_def value_defs)
  with ok fresh i show ?thesis by simp
qed

text \<open>
  The claim as it was stated fails for a candidate whose party is a number too large for a
  double: the request is accepted, and GetElection returns \<^verbatim>\<open>null\<close> for the party.
\<close>

theorem createElection_roundtrip_counterexample:
  "status (fst (createElection lib ev0 st_ann (as_ann body_rich))) = 201 \<and>
   js_get (js_get (json (fst (createElection lib ev0 st_ann (as_ann body_rich)))) ''election'')
     ''id'' = JStr ''00000000-0000-4000-8000-000000000000'' \<and>
   map (\<lambda>c. js_get c ''party'') (elems (field (as_ann body_rich) ''candidates'')) =
     [JNum PosInf] \<and>
   status (getElection (snd (createElection lib ev0 st_ann (as_ann body_rich)))
             ''00000000-0000-4000-8000-000000000000'') = 200 \<and>
   map (\<lambda>c. js_get c ''party'')
     (elems (js_get (js_get (json (getElection
        (snd (createElection lib ev0 st_ann (as_ann body_rich)))
        ''00000000-0000-4000-8000-000000000000'')) ''election'') ''candidates'')) = [JNull]"
  by (simp add: lib_def ev0_def ann_def st_ann_def as_ann_def body_rich_def value_defs server_defs
      getElection_def election_js_def candidate_js_def)

section \<open>The short-id handler: allocating the identifier, saving the candidates\<close>

lemma alloc_loop_retry:
  "electionExists d eid \<Longrightarrow> tries < 6 \<Longrightarrow>
   alloc_loop d gen eid tries = alloc_loop d gen (gen (Suc tries)) (Suc tries)"
  by (subst alloc_loop.simps) simp

lemma alloc_loop_stop:
  "\<not> electionExists d eid \<or> \<not> tries < 6 \<Longrightarrow> alloc_loop d gen eid tries = (eid, tries)"
  by (subst alloc_loop.simps) auto

lemma alloc_loop_props:
  "tries \<le> 6 \<Longrightarrow> eid = gen tries \<Longrightarrow> alloc_loop d gen eid tries = (i, n) \<Longrightarrow>
      tries \<le> n \<and> n \<le> 6 \<and> i = gen n \<and> (\<forall>j. tries \<le> j \<and> j < n \<longrightarrow> electionExists d (gen j)) \<and>
      (electionExists d i \<longrightarrow> n = 6)"
proof (induction d gen eid tries rule: alloc_loop.induct)
  case (1 d gen electionId tries)
  show ?case
  proof (cases "electionExists d electionId \<and> tries < 6")
    case True
    then have c: "electionExists d electionId" "tries < 6" by simp_all
    have r: "alloc_loop d gen (gen (Suc tries)) (Suc tries) = (i, n)"
      using "1.prems"(3) by (simp only: alloc_loop_retry[OF c])
    from c have "Suc tries \<le> 6" by simp
    from "1.IH"[OF True this refl r] have
      ih: "Suc tries \<le> n \<and> n \<le> 6 \<and> i = gen n \<and>
      (\<forall>j. Suc tries \<le> j \<and> j < n \<longrightarrow> electionExists d (gen j)) \<and> (electionExists d i \<longrightarrow> n = 6)" .
    then have ih4: "\<And>j. Suc tries \<le> j \<Longrightarrow> j < n \<Longrightarrow> electionExists d (gen j)"
      by blast
    have "electionExists d (gen j)" if "tries \<le> j" "j < n" for j
    proof (cases "j = tries")
      case True
      from c(1) show ?thesis unfolding True "1.prems"(2) .
    next
      case False
      with that have "Suc tries \<le> j" by simp
      then show ?thesis using that(2) by (rule ih4)
    qed
    then have "\<forall>j. tries \<le> j \<and> j < n \<longrightarrow> electionExists d (gen j)"
      by blast
    moreover from ih have "tries \<le> n" by linarith
    ultimately show ?thesis using ih by blast
  next
    case False
    then have "\<not> electionExists d electionId \<or> \<not> tries < 6" by simp
    from alloc_loop_stop[OF this] "1.prems"(3) have e: "i = electionId" "n = tries"
      by simp_all
    have "electionExists d i \<longrightarrow> n = 6"
      using False "1.prems"(1) unfolding e by linarith
    moreover have "\<forall>j. tries \<le> j \<and> j < tries \<longrightarrow> electionExists d (gen j)"
      by linarith
    ultimately show ?thesis using "1.prems"(1,2) unfolding e by (intro conjI) simp_all
  qed
qed

lemma allocation_eq:
  "alloc_loop d (\<lambda>k. generateShortId (uuidv4 ev k)) (generateShortId (uuidv4 ev 0)) 0
    = allocation ev d"
  by (simp add: allocation_def short_id_def[abs_def])

lemma allocation_props:
  "snd (allocation ev d) \<le> 6 \<and> fst (allocation ev d) = short_id ev (snd (allocation ev d)) \<and>
   (\<forall>j < snd (allocation ev d). electionExists d (short_id ev j)) \<and>
   (electionExists d (fst (allocation ev d)) \<longleftrightarrow> (\<forall>k \<le> 6. electionExists d (short_id ev k)))"
proof -
  obtain i n where a: "allocation ev d = (i, n)" by (cases "allocation ev d")
  then have "alloc_loop d (short_id ev) (short_id ev 0) 0 = (i, n)"
    by (simp add: allocation_def)
  from alloc_loop_props[OF _ refl this]
  have p: "n \<le> 6" "i = short_id ev n" "\<And>j. j < n \<Longrightarrow> electionExists d (short_id ev j)"
    and q: "electionExists d i \<Longrightarrow> n = 6"
    by blast+
  have "electionExists d i \<longleftrightarrow> (\<forall>k \<le> 6. electionExists d (short_id ev k))"
  proof
    assume e: "electionExists d i"
    from q[OF e] have n: "n = 6" .
    show "\<forall>k \<le> 6. electionExists d (short_id ev k)"
    proof (intro allI impI)
      fix k :: nat assume "k \<le> 6"
      then consider "k < 6" | "k = 6" by linarith
      then show "electionExists d (short_id ev k)"
      proof cases
        case 1
        then show ?thesis using p(3)[of k] n by simp
      next
        case 2
        then show ?thesis using e p(2) n by simp
      qed
    qed
  next
    assume "\<forall>k \<le> 6. electionExists d (short_id ev k)"
    with p(1,2) show "electionExists d i" by blast
  qed
  with a p show ?thesis by simp
qed

lemma well_typed_trim:
  "well_typed_candidate c \<Longrightarrow> js_trim (js_or (js_get c ''name'') (JStr [])) = Some (name_given c)"
  by (cases "js_get c ''name''") (auto simp: well_typed_candidate_def name_given_def js_or_def)

lemma candidate_loop_well_typed:
  "list_all well_typed_candidate cs \<Longrightarrow>
   candidate_loop i cs d saved =
     Inr (d\<lparr>db_candidates := db_candidates d @
               map (row_of i) (map saved_of (enumerate (Suc (length (db_candidates d)))
                 (kept cs)))\<rparr>,
          saved @ map saved_of (enumerate (Suc (length (db_candidates d))) (kept cs)))"
proof (induction cs arbitrary: d saved)
  case Nil
  show ?case by (simp add: kept_def)
next
  case (Cons c cs)
  then have w: "well_typed_candidate c" and ws: "list_all well_typed_candidate cs"
    by simp_all
  from w have n: "\<not> nullish c" by (simp add: well_typed_candidate_def)
  show ?case
  proof (cases "nameless c")
    case True
    then have "name_given c = []" by (simp add: nameless_def)
    with n well_typed_trim[OF w] Cons.IH[OF ws, of d saved] True show ?thesis
      by (simp add: kept_def)
  next
    case False
    then have "name_given c \<noteq> []" by (simp add: nameless_def)
    with n well_typed_trim[OF w] False
      Cons.IH[OF ws, of "fst (insertCandidate d i (name_given c) (js_or (js_get c ''party'')
        (JStr []))
         (js_or (js_get c ''manifesto'') (JStr [])))"
        "saved @ [saved_of (Suc (length (db_candidates d)), c)]"]
    show ?thesis
      by (simp add: kept_def insertCandidate_def Let_def saved_of_def row_of_def)
  qed
qed

lemma candidate_loop_elections_thrown:
  "candidate_loop i cs d saved = Inl d' \<Longrightarrow> db_elections d' = db_elections d"
  by (induction cs arbitrary: d saved)
     (auto simp: insertCandidate_def Let_def split: if_splits option.splits prod.splits)

lemma createElectionB_exhausted:
  "reaches_allocation rt req \<Longrightarrow> electionExists d (fst (allocation ev d)) \<Longrightarrow>
   createElectionB rt ev d req = (err 500 ''Could not generate unique election id'', d)"
  by (auto simp: createElectionB_def reaches_allocation_def Let_def allocation_eq
           split: option.splits)

lemma createElectionB_no_date:
  "reaches_allocation rt req \<Longrightarrow> \<not> electionExists d (fst (allocation ev d)) \<Longrightarrow>
   \<not> valid_date rt (field req ''start'') \<or> \<not> valid_date rt (field req ''end'') \<Longrightarrow>
   createElectionB rt ev d req = (err 500 ''Internal server error'', d)"
  by (auto simp: createElectionB_def reaches_allocation_def valid_date_def Let_def allocation_eq
           split: option.splits)

lemma map_of_jsonify_None:
  "k \<notin> fst ` set kvs \<Longrightarrow>
   map_of (map (\<lambda>kv. (fst kv, jsonify (snd kv))) (filter (\<lambda>kv. snd kv \<noteq> JUndefined) kvs)) k =
     None"
  by (induction kvs) auto

lemma js_get_jsonify:
  "distinct (map fst kvs) \<Longrightarrow>
   js_get (jsonify (JObj kvs)) k =
     (case map_of kvs k of
        None \<Rightarrow> JUndefined
      | Some v \<Rightarrow> if v = JUndefined then JUndefined else jsonify v)"
  by (induction kvs) (auto simp: map_of_jsonify_None split: option.splits)

lemma created_B_sent:
  "js_get (js_get (json (send 201 (JObj [(''success'', JBool True),
      (''election'', created_B rt ev d req sv)]))) ''election'') ''id'' =
     JStr (fst (allocation ev d))"
  "js_get (js_get (json (send 201 (JObj [(''success'', JBool True),
      (''election'', created_B rt ev d req sv)]))) ''election'') ''candidates'' =
     JArr (map (\<lambda>c. jsonify (saved_candidate_js c)) sv)"
proof -
  have e: "js_get (json (send 201 (JObj [(''success'', JBool True),
      (''election'', created_B rt ev d req sv)]))) ''election'' =
      jsonify (created_B rt ev d req sv)"
    by (simp add: send_def created_B_def)
  show "js_get (js_get (json (send 201 (JObj [(''success'', JBool True),
      (''election'', created_B rt ev d req sv)]))) ''election'') ''id'' =
     JStr (fst (allocation ev d))"
    and "js_get (js_get (json (send 201 (JObj [(''success'', JBool True),
      (''election'', created_B rt ev d req sv)]))) ''election'') ''candidates'' =
     JArr (map (\<lambda>c. jsonify (saved_candidate_js c)) sv)"
    unfolding e unfolding created_B_def by (subst js_get_jsonify, simp, simp add: comp_def)+
qed

lemma createElectionB_inserting:
  assumes "reaches_insertion rt ev d req"
  shows "candidate_loop (fst (allocation ev d)) (elems (field req ''candidates''))
             (insertElection d (new_row rt ev d req)) [] = Inl d' \<Longrightarrow>
         createElectionB rt ev d req = (err 500 ''Internal server error'', d')"
    and "candidate_loop (fst (allocation ev d)) (elems (field req ''candidates''))
             (insertElection d (new_row rt ev d req)) [] = Inr (d', savedCandidates) \<Longrightarrow>
         createElectionB rt ev d req =
          (send 201 (JObj [(''success'', JBool True),
                           (''election'', created_B rt ev d req savedCandidates)]), d')"
proof -
  from assms obtain s e where
    se: "newDate rt (field req ''start'') = Some (Some s)"
      "newDate rt (field req ''end'') = Some (Some e)"
    by (auto simp: reaches_insertion_def valid_date_def split: option.splits)
  from assms have c: "truthy (field req ''title'')" "truthy (field req ''start'')"
    "truthy (field req ''end'')" "\<not> date_ge (Some s) (Some e)"
    "\<not> electionExists d (fst (allocation ev d))"
    by (simp_all add: reaches_insertion_def reaches_allocation_def se)
  show "candidate_loop (fst (allocation ev d)) (elems (field req ''candidates''))
             (insertElection d (new_row rt ev d req)) [] = Inl d' \<Longrightarrow>
         createElectionB rt ev d req = (err 500 ''Internal server error'', d')"
    using c by (simp add: createElectionB_def Let_def allocation_eq elems_default new_row_def se)
  show "candidate_loop (fst (allocation ev d)) (elems (field req ''candidates''))
             (insertElection d (new_row rt ev d req)) [] = Inr (d', savedCandidates) \<Longrightarrow>
         createElectionB rt ev d req =
          (send 201 (JObj [(''success'', JBool True),
                           (''election'', created_B rt ev d req savedCandidates)]), d')"
    using c
    by (simp add: createElectionB_def Let_def allocation_eq elems_default new_row_def se
        created_B_def)
qed

lemma createElectionB_outcomes:
  assumes "reaches_allocation rt req" "\<not> electionExists d (fst (allocation ev d))"
  shows "(fst (createElectionB rt ev d req) = err 500 ''Internal server error'' \<and>
          (db_elections (snd (createElectionB rt ev d req)) = db_elections d \<or>
           db_elections (snd (createElectionB rt ev d req))
             = db_elections d @ [new_row rt ev d req])) \<or>
         (status (fst (createElectionB rt ev d req)) = 201 \<and>
          db_elections (snd (createElectionB rt ev d req))
            = db_elections d @ [new_row rt ev d req] \<and>
          js_get (js_get (json (fst (createElectionB rt ev d req))) ''election'') ''id'' =
            JStr (fst (allocation ev d)))"
proof -
  let ?loop = "candidate_loop (fst (allocation ev d)) (elems (field req ''candidates''))
             (insertElection d (new_row rt ev d req)) []"
  consider (nodate) "\<not> valid_date rt (field req ''start'') \<or>
    \<not> valid_date rt (field req ''end'')"
    | (thrown) d' where "reaches_insertion rt ev d req" "?loop = Inl d'"
    | (saved) d' sv where "reaches_insertion rt ev d req" "?loop = Inr (d', sv)"
  proof (cases "\<not> valid_date rt (field req ''start'') \<or> \<not> valid_date rt (field req ''end'')")
    case True
    then show ?thesis by (rule nodate)
  next
    case False
    with assms have r: "reaches_insertion rt ev d req" by (simp add: reaches_insertion_def)
    show ?thesis
    proof (cases ?loop)
      case (Inl d')
      with r show ?thesis by (rule thrown)
    next
      case (Inr p)
      then obtain d' sv where "?loop = Inr (d', sv)" by (cases p) simp
      with r show ?thesis by (rule saved)
    qed
  qed
  then show ?thesis
  proof cases
    case nodate
    from createElectionB_no_date[OF assms nodate] show ?thesis by simp
  next
    case thrown
    from createElectionB_inserting(1)[OF thrown] candidate_loop_elections_thrown[OF thrown(2)]
    show ?thesis by (simp add: insertElection_def)
  next
    case saved
    from createElectionB_inserting(2)[OF saved] candidate_loop_elections[OF saved(2)]
    show ?thesis by (simp add: insertElection_def created_B_sent)
  qed
qed

lemma not_exists_filter:
  "\<not> electionExists d i \<Longrightarrow> filter (\<lambda>r. r_id r = i) (db_elections d) = []"
  by (auto simp: electionExists_def filter_empty_conv)

lemma short_id_length:
  "10 \<le> length (filter (\<lambda>c. c \<noteq> CHR ''-'') (uuidv4 ev k)) \<Longrightarrow> length (short_id ev k) = 10"
  by (simp add: short_id_def generateShortId_def)

lemma saved_of_fields:
  "map sc_name (map saved_of (enumerate n xs)) = map name_given xs"
  "map sc_party (map saved_of (enumerate n xs)) = map (\<lambda>c. js_or (js_get c ''party'') (JStr [])) xs"
  "map sc_manifesto (map saved_of (enumerate n xs)) =
     map (\<lambda>c. js_or (js_get c ''manifesto'') (JStr [])) xs"
  "map sc_id (map saved_of (enumerate n xs)) = [n ..< n + length xs]"
  by (induction xs arbitrary: n) (simp_all add: saved_of_def upt_rec)

text \<open>
  C9. The retry loop draws at most six identifiers after the first and stops at the first
  one that no stored election has; the identifier it ends with is taken exactly when all
  seven drawn are, and has ten characters when the uuid it is cut from has ten that are
  no hyphen. For a request that reaches the allocation, the handler answers 500 with
  \<^verbatim>\<open>Could not generate unique election id\<close> exactly when that identifier is taken, and
  then inserts nothing; otherwise the identifier is free, at most one stored election has it
  afterwards, and exactly one, the election returned, when the answer is 201.
\<close>

theorem id_allocation_bounded:
  "snd (allocation ev d) \<le> 6 \<and>
   fst (allocation ev d) = short_id ev (snd (allocation ev d)) \<and>
   (\<forall>j < snd (allocation ev d). electionExists d (short_id ev j)) \<and>
   (electionExists d (fst (allocation ev d)) \<longleftrightarrow> (\<forall>k \<le> 6. electionExists d (short_id ev k))) \<and>
   (10 \<le> length (filter (\<lambda>c. c \<noteq> CHR ''-'') (uuidv4 ev k)) \<longrightarrow> length (short_id ev k) = 10) \<and>
   (reaches_allocation rt req \<longrightarrow>
      (fst (createElectionB rt ev d req) = err 500 ''Could not generate unique election id'' \<longleftrightarrow>
         electionExists d (fst (allocation ev d))) \<and>
      (electionExists d (fst (allocation ev d)) \<longrightarrow> snd (createElectionB rt ev d req) = d) \<and>
      (\<not> electionExists d (fst (allocation ev d)) \<longrightarrow>
         length (filter (\<lambda>r. r_id r = fst (allocation ev d))
                   (db_elections (snd (createElectionB rt ev d req)))) \<le> 1 \<and>
         (status (fst (createElectionB rt ev d req)) = 201 \<longrightarrow>
            js_get (js_get (json (fst (createElectionB rt ev d req))) ''election'') ''id'' =
              JStr (fst (allocation ev d)) \<and>
            length (filter (\<lambda>r. r_id r = fst (allocation ev d))
                      (db_elections (snd (createElectionB rt ev d req)))) = 1)))"
proof -
  let ?i = "fst (allocation ev d)"
  let ?out = "createElectionB rt ev d req"
  have id: "r_id (new_row rt ev d req) = ?i"
    by (simp add: new_row_def)
  have reached: "(fst ?out = err 500 ''Could not generate unique election id'' \<longleftrightarrow>
    electionExists d ?i) \<and>
      (electionExists d ?i \<longrightarrow> snd ?out = d) \<and>
      (\<not> electionExists d ?i \<longrightarrow>
         length (filter (\<lambda>r. r_id r = ?i) (db_elections (snd ?out))) \<le> 1 \<and>
         (status (fst ?out) = 201 \<longrightarrow>
            js_get (js_get (json (fst ?out)) ''election'') ''id'' = JStr ?i \<and>
            length (filter (\<lambda>r. r_id r = ?i) (db_elections (snd ?out))) = 1))"
    if r: "reaches_allocation rt req"
  proof (cases "electionExists d ?i")
    case True
    from createElectionB_exhausted[OF r True] True show ?thesis by simp
  next
    case False
    note f = not_exists_filter[OF False]
    from createElectionB_outcomes[OF r False] show ?thesis
    proof (elim disjE conjE)
      assume "fst ?out = err 500 ''Internal server error''"
        and "db_elections (snd ?out) = db_elections d"
      with False f show ?thesis by (simp add: err_def)
    next
      assume "fst ?out = err 500 ''Internal server error''"
        and "db_elections (snd ?out) = db_elections d @ [new_row rt ev d req]"
      with False f id show ?thesis by (simp add: err_def)
    next
      assume "status (fst ?out) = 201"
        and "db_elections (snd ?out) = db_elections d @ [new_row rt ev d req]"
        and "js_get (js_get (json (fst ?out)) ''election'') ''id'' = JStr ?i"
      with False f id show ?thesis by (auto simp: err_def)
    qed
  qed
  from allocation_props[of ev d] short_id_length[of ev k] reached show ?thesis
    by blast
qed

theorem id_allocation_bounded_witness:
  "allocation ev0 db_two = (''0000000200'', 2) \<and>
   electionExists db_two (short_id ev0 0) \<and> electionExists db_two (short_id ev0 1) \<and>
   \<not> electionExists db_two ''0000000200'' \<and>
   reaches_allocation lib (anon body_B) \<and>
   status (fst (createElectionB lib ev0 db_two (anon body_B))) = 201 \<and>
   js_get (js_get (json (fst (createElectionB lib ev0 db_two (anon body_B)))) ''election'') ''id'' =
     JStr ''0000000200'' \<and>
   length (filter (\<lambda>r. r_id r = ''0000000200'')
             (db_elections (snd (createElectionB lib ev0 db_two (anon body_B))))) = 1 \<and>
   length (short_id ev0 0) = 10 \<and>
   allocation ev0 db_seven = (''0000000600'', 6) \<and>
   electionExists db_seven ''0000000600'' \<and>
   createElectionB lib ev0 db_seven (anon body_B) =
     (err 500 ''Could not generate unique election id'', db_seven)"
proof -
  have two: "allocation ev0 db_two = (''0000000200'', 2)"
    and seven: "allocation ev0 db_seven = (''0000000600'', 6)"
    by (simp_all add: allocation_def short_id_def lib_def ev0_def anon_def body_B_def old_row_def
        db_two_def db_seven_def short_id_defs)
  have free: "\<not> electionExists db_two ''0000000200''"
    and taken: "electionExists db_seven ''0000000600''"
    by (simp_all add: electionExists_def lib_def ev0_def anon_def body_B_def old_row_def db_two_def
        db_seven_def)
  have r: "reaches_allocation lib (anon body_B)"
    by (simp add: reaches_allocation_def lib_def anon_def body_B_def value_defs date_ge_def
        timeClip_def)
  have ok: "status (fst (createElectionB lib ev0 db_two (anon body_B))) = 201"
    by (simp add: lib_def ev0_def anon_def body_B_def old_row_def db_two_def db_seven_def value_defs
        short_id_defs)
  have u: "10 \<le> length (filter (\<lambda>c. c \<noteq> CHR ''-'') (uuidv4 ev0 0))"
    by (simp add: ev0_def)
  note T = id_allocation_bounded[of ev0 db_two 0 lib "anon body_B", unfolded two fst_conv snd_conv]
  note S = id_allocation_bounded[of ev0 db_seven 0 lib "anon body_B",
    unfolded seven fst_conv snd_conv]
  from T have "\<forall>j<2. electionExists db_two (short_id ev0 j)"
    by blast
  then have "electionExists db_two (short_id ev0 0) \<and> electionExists db_two (short_id ev0 1)"
    by simp
  moreover from T free r ok have
    "js_get (js_get (json (fst (createElectionB lib ev0 db_two
      (anon body_B)))) ''election'') ''id'' =
       JStr ''0000000200'' \<and>
     length (filter (\<lambda>r. r_id r = ''0000000200'')
               (db_elections (snd (createElectionB lib ev0 db_two (anon body_B))))) = 1"
    by blast
  moreover from T u have "length (short_id ev0 0) = 10"
    by blast
  moreover from S taken r have
    "fst (createElectionB lib ev0 db_seven (anon body_B)) = err 500
        ''Could not generate unique election id'' \<and>
     snd (createElectionB lib ev0 db_seven (anon body_B)) = db_seven"
    by blast
  then have "createElectionB lib ev0 db_seven (anon body_B) =
     (err 500 ''Could not generate unique election id'', db_seven)"
    by (simp add: prod_eq_iff)
  ultimately show ?thesis using two seven free taken r ok by blast
qed

lemma candidate_loop_append:
  "candidate_loop i (xs @ ys) d saved =
     (case candidate_loop i xs d saved of
        Inl d' \<Rightarrow> Inl d'
      | Inr (d', saved') \<Rightarrow> candidate_loop i ys d' saved')"
  by (induction xs arbitrary: d saved) (auto simp: Let_def split: option.splits prod.splits)

lemma candidate_loop_ill_typed:
  "\<not> well_typed_candidate c \<Longrightarrow> candidate_loop i (c # rest) d saved = Inl d"
  by (cases "js_get c ''name''") (auto simp: well_typed_candidate_def js_or_def)

lemma jsonify_saved:
  "jsonify (saved_candidate_js (saved_of x)) =
     JObj [(''id'', JNum (Fin (of_nat (fst x)))), (''name'', JStr (name_given (snd x))),
           (''party'', jsonify (js_or (js_get (snd x) ''party'') (JStr []))),
           (''manifesto'', jsonify (js_or (js_get (snd x) ''manifesto'') (JStr [])))]"
  by (simp add: saved_candidate_js_def saved_of_def split_beta)

text \<open>
  C10: the code breaks the claim. For a request that reaches the insertion and whose
  candidates are well typed, the short-id handler answers 201; the candidates it returns
  and the rows it inserts are those of the submitted candidates that are not nameless, in
  the order submitted, with their trimmed names, their party and manifesto (or the empty
  string) and the next row ids; no saved name is empty, and when every submitted candidate
  is nameless the election is created with no candidate at all. But a candidate that is not
  well typed, \<^verbatim>\<open>null\<close> or with a name that is truthy and no string, is not dropped: the
  loop throws at it, and the handler answers 500 after it has inserted the election and the
  candidates before that one, which stay in the database; the candidates after it are not
  saved.
\<close>

theorem nameless_candidates_dropped_or_thrown:
  "(reaches_insertion rt ev d req \<and>
    list_all well_typed_candidate (elems (field req ''candidates'')) \<longrightarrow>
     (let cs = elems (field req ''candidates''); out = createElectionB rt ev d req
      in status (fst out) = 201 \<and>
         js_get (js_get (json (fst out)) ''election'') ''candidates'' =
           JArr (map (\<lambda>x. JObj [(''id'', JNum (Fin (of_nat (fst x)))),
                                 (''name'', JStr (name_given (snd x))),
                                 (''party'', jsonify (js_or (js_get (snd x) ''party'') (JStr []))),
                                 (''manifesto'',
                                  jsonify (js_or (js_get (snd x) ''manifesto'') (JStr [])))])
                   (enumerate (Suc (length (db_candidates d))) (filter (\<lambda>c. \<not> nameless c) cs))) \<and>
         db_candidates (snd out) =
           db_candidates d @ map (row_of (fst (allocation ev d))) (saved_list d cs) \<and>
         map sc_name (saved_list d cs) = map name_given (filter (\<lambda>c. \<not> nameless c) cs) \<and>
         map sc_party (saved_list d cs) =
           map (\<lambda>c. js_or (js_get c ''party'') (JStr [])) (filter (\<lambda>c. \<not> nameless c) cs) \<and>
         map sc_manifesto (saved_list d cs) =
           map (\<lambda>c. js_or (js_get c ''manifesto'') (JStr [])) (filter (\<lambda>c. \<not> nameless c) cs) \<and>
         map sc_id (saved_list d cs) =
           [Suc (length (db_candidates d)) ..<
            Suc (length (db_candidates d)) + length (filter (\<lambda>c. \<not> nameless c) cs)] \<and>
         [] \<notin> set (map sc_name (saved_list d cs)) \<and>
         (list_all nameless cs \<longrightarrow>
            saved_list d cs = [] \<and> db_candidates (snd out) = db_candidates d))) \<and>
   (reaches_insertion rt ev d req \<and> elems (field req ''candidates'') = cs @ c # rest \<and>
    list_all well_typed_candidate cs \<and> \<not> well_typed_candidate c \<longrightarrow>
      fst (createElectionB rt ev d req) = err 500 ''Internal server error'' \<and>
      db_elections (snd (createElectionB rt ev d req)) = db_elections d @ [new_row rt ev d req] \<and>
      db_candidates (snd (createElectionB rt ev d req)) =
        db_candidates d @ map (row_of (fst (allocation ev d))) (saved_list d cs))"
proof (intro conjI impI)
  assume a: "reaches_insertion rt ev d req \<and>
   list_all well_typed_candidate (elems (field req ''candidates''))"
  let ?cs = "elems (field req ''candidates'')"
  let ?d1 = "insertElection d (new_row rt ev d req)"
  have l: "length (db_candidates ?d1) = length (db_candidates d)"
    by (simp add: insertElection_def)
  from a candidate_loop_well_typed[of ?cs "fst (allocation ev d)" ?d1 "[]"]
  have loop: "candidate_loop (fst (allocation ev d)) ?cs ?d1 [] =
     Inr (?d1\<lparr>db_candidates := db_candidates ?d1 @ map (row_of (fst (allocation ev d)))
       (saved_list d ?cs)\<rparr>,
          saved_list d ?cs)"
    by (simp add: saved_list_def l)
  from a createElectionB_inserting(2)[OF _ loop] have
    out: "status (fst (createElectionB rt ev d req)) = 201"
      "js_get (js_get (json (fst (createElectionB rt ev d req))) ''election'') ''candidates'' =
           JArr (map (\<lambda>x. JObj [(''id'', JNum (Fin (of_nat (fst x)))),
                                 (''name'', JStr (name_given (snd x))),
                                 (''party'', jsonify (js_or (js_get (snd x) ''party'') (JStr []))),
                                 (''manifesto'',
                                  jsonify (js_or (js_get (snd x) ''manifesto'') (JStr [])))])
                   (enumerate (Suc (length (db_candidates d))) (filter (\<lambda>c. \<not> nameless c) ?cs)))"
      "db_candidates (snd (createElectionB rt ev d req)) =
           db_candidates d @ map (row_of (fst (allocation ev d))) (saved_list d ?cs)"
    by (simp_all add: insertElection_def created_B_sent)
       (simp add: saved_list_def kept_def jsonify_saved)
  have names: "map sc_name (saved_list d ?cs) = map name_given (filter (\<lambda>c. \<not> nameless c) ?cs)"
    and party: "map sc_party (saved_list d ?cs) =
           map (\<lambda>c. js_or (js_get c ''party'') (JStr [])) (filter (\<lambda>c. \<not> nameless c) ?cs)"
    and manifesto: "map sc_manifesto (saved_list d ?cs) =
           map (\<lambda>c. js_or (js_get c ''manifesto'') (JStr [])) (filter (\<lambda>c. \<not> nameless c) ?cs)"
    and ids: "map sc_id (saved_list d ?cs) =
           [Suc (length (db_candidates d)) ..<
            Suc (length (db_candidates d)) + length (filter (\<lambda>c. \<not> nameless c) ?cs)]"
    unfolding saved_list_def kept_def by (rule saved_of_fields)+
  have "[] \<notin> set (map name_given (filter (\<lambda>c. \<not> nameless c) ?cs))"
    by (auto simp: nameless_def)
  with names have nonempty: "[] \<notin> set (map sc_name (saved_list d ?cs))"
    by simp
  have none: "saved_list d ?cs = []" if "list_all nameless ?cs"
    using that by (simp add: saved_list_def kept_def list_all_iff filter_empty_conv)
  show "let cs = elems (field req ''candidates''); out = createElectionB rt ev d req
      in status (fst out) = 201 \<and>
         js_get (js_get (json (fst out)) ''election'') ''candidates'' =
           JArr (map (\<lambda>x. JObj [(''id'', JNum (Fin (of_nat (fst x)))),
                                 (''name'', JStr (name_given (snd x))),
                                 (''party'', jsonify (js_or (js_get (snd x) ''party'') (JStr []))),
                                 (''manifesto'',
                                  jsonify (js_or (js_get (snd x) ''manifesto'') (JStr [])))])
                   (enumerate (Suc (length (db_candidates d))) (filter (\<lambda>c. \<not> nameless c) cs))) \<and>
         db_candidates (snd out) =
           db_candidates d @ map (row_of (fst (allocation ev d))) (saved_list d cs) \<and>
         map sc_name (saved_list d cs) = map name_given (filter (\<lambda>c. \<not> nameless c) cs) \<and>
         map sc_party (saved_list d cs) =
           map (\<lambda>c. js_or (js_get c ''party'') (JStr [])) (filter (\<lambda>c. \<not> nameless c) cs) \<and>
         map sc_manifesto (saved_list d cs) =
           map (\<lambda>c. js_or (js_get c ''manifesto'') (JStr [])) (filter (\<lambda>c. \<not> nameless c) cs) \<and>
         map sc_id (saved_list d cs) =
           [Suc (length (db_candidates d)) ..<
            Suc (length (db_candidates d)) + length (filter (\<lambda>c. \<not> nameless c) cs)] \<and>
         [] \<notin> set (map sc_name (saved_list d cs)) \<and>
         (list_all nameless cs \<longrightarrow> saved_list d cs = [] \<and> db_candidates (snd out) = db_candidates d)"
    unfolding Let_def
    using out names party manifesto ids nonempty none by (intro conjI impI) simp_all
next
  assume a: "reaches_insertion rt ev d req \<and> elems (field req ''candidates'') = cs @ c # rest \<and>
    list_all well_typed_candidate cs \<and> \<not> well_typed_candidate c"
  let ?i = "fst (allocation ev d)"
  let ?d1 = "insertElection d (new_row rt ev d req)"
  let ?d2 = "?d1\<lparr>db_candidates := db_candidates ?d1 @ map (row_of ?i) (saved_list d cs)\<rparr>"
  have l: "length (db_candidates ?d1) = length (db_candidates d)"
    by (simp add: insertElection_def)
  from a candidate_loop_well_typed[of cs ?i ?d1 "[]"]
  have "candidate_loop ?i cs ?d1 [] = Inr (?d2, saved_list d cs)"
    by (simp add: saved_list_def l)
  moreover from a have "\<not> well_typed_candidate c"
    by simp
  then have "candidate_loop ?i (c # rest) ?d2 (saved_list d cs) = Inl ?d2"
    by (rule candidate_loop_ill_typed)
  ultimately have "candidate_loop ?i (elems (field req ''candidates'')) ?d1 [] = Inl ?d2"
    using a by (simp add: candidate_loop_append)
  with a createElectionB_inserting(1)[of rt ev d req ?d2] have
    r: "createElectionB rt ev d req = (err 500 ''Internal server error'', ?d2)"
    by blast
  show "fst (createElectionB rt ev d req) = err 500 ''Internal server error''"
    and "db_elections (snd (createElectionB rt ev d req)) = db_elections d @ [new_row rt ev d req]"
    and "db_candidates (snd (createElectionB rt ev d req)) =
        db_candidates d @ map (row_of (fst (allocation ev d))) (saved_list d cs)"
    unfolding r by (simp_all add: insertElection_def)
qed

theorem nameless_candidates_dropped_or_thrown_witness:
  "reaches_insertion lib ev0 db0 (anon body_B_four) \<and>
   list_all well_typed_candidate (elems (field (anon body_B_four) ''candidates'')) \<and>
   map nameless (elems (field (anon body_B_four) ''candidates'')) = [True, False, True, False] \<and>
   status (fst (createElectionB lib ev0 db0 (anon body_B_four))) = 201 \<and>
   js_get (js_get (json (fst (createElectionB lib ev0 db0 (anon body_B_four)))) ''election'')
     ''candidates'' =
     JArr [JObj [(''id'', JNum (Fin 1)), (''name'', JStr ''Eve''), (''party'', JStr ''Q''),
                 (''manifesto'', JStr [])],
           JObj [(''id'', JNum (Fin 2)), (''name'', JStr ''Flo''), (''party'', JStr []),
                 (''manifesto'', JStr ''M'')]] \<and>
   map cr_name (db_candidates (snd (createElectionB lib ev0 db0 (anon body_B_four)))) =
     [''Eve'', ''Flo''] \<and>
   reaches_insertion lib ev0 db0 (anon body_B_blank) \<and>
   length (elems (field (anon body_B_blank) ''candidates'')) = 2 \<and>
   list_all nameless (elems (field (anon body_B_blank) ''candidates'')) \<and>
   status (fst (createElectionB lib ev0 db0 (anon body_B_blank))) = 201 \<and>
   js_get (js_get (json (fst (createElectionB lib ev0 db0 (anon body_B_blank)))) ''election'')
     ''candidates'' = JArr [] \<and>
   db_candidates (snd (createElectionB lib ev0 db0 (anon body_B_blank))) = [] \<and>
   reaches_insertion lib ev0 db0 (anon body_B_null) \<and>
   elems (field (anon body_B_null) ''candidates'') =
     [JObj [(''name'', JStr ''Eve'')]] @ JNull # [JObj [(''name'', JStr ''Flo'')]] \<and>
   \<not> well_typed_candidate JNull \<and>
   fst (createElectionB lib ev0 db0 (anon body_B_null)) = err 500 ''Internal server error'' \<and>
   map r_id (db_elections (snd (createElectionB lib ev0 db0 (anon body_B_null)))) =
     [''0000000000''] \<and>
   map cr_name (db_candidates (snd (createElectionB lib ev0 db0 (anon body_B_null)))) = [''Eve'']"
proof -
  have r: "reaches_insertion lib ev0 db0 (anon body_B_four)"
    "reaches_insertion lib ev0 db0 (anon body_B_blank)"
    "reaches_insertion lib ev0 db0 (anon body_B_null)"
    by (simp_all add: reaches_insertion_def reaches_allocation_def valid_date_def allocation_def
        short_id_def lib_def ev0_def db0_def anon_def body_B_four_def body_B_blank_def
        body_B_null_def value_defs short_id_defs)
  have cs: "elems (field (anon body_B_four) ''candidates'') =
      [JObj [(''name'', JStr ''  '')], JObj [(''name'', JStr ''Eve''), (''party'', JStr ''Q'')],
       JObj [(''party'', JStr ''R'')],
       JObj [(''name'', JStr '' Flo ''), (''manifesto'', JStr ''M'')]]"
    and cs': "elems (field (anon body_B_blank) ''candidates'') =
      [JObj [(''name'', JStr ''  '')], JObj [(''party'', JStr ''R'')]]"
    and cs'': "elems (field (anon body_B_null) ''candidates'') =
      [JObj [(''name'', JStr ''Eve'')]] @ JNull # [JObj [(''name'', JStr ''Flo'')]]"
    by (simp_all add: anon_def body_B_four_def body_B_blank_def body_B_null_def value_defs)
  have w: "list_all well_typed_candidate (elems (field (anon body_B_four) ''candidates''))"
    "list_all well_typed_candidate (elems (field (anon body_B_blank) ''candidates''))"
    unfolding cs cs' by (simp_all add: well_typed_candidate_def)
  have w': "list_all well_typed_candidate [JObj [(''name'', JStr ''Eve'')]]"
    "\<not> well_typed_candidate JNull"
    by (simp_all add: well_typed_candidate_def)
  have n: "map nameless (elems (field (anon body_B_four) ''candidates'')) =
      [True, False, True, False]"
    and n': "list_all nameless (elems (field (anon body_B_blank) ''candidates''))"
    unfolding cs cs' by (simp_all add: nameless_def name_given_def value_defs)
  have s: "saved_list db0 (elems (field (anon body_B_four) ''candidates'')) =
      [\<lparr>sc_id = 1, sc_name = ''Eve'', sc_party = JStr ''Q'', sc_manifesto = JStr []\<rparr>,
       \<lparr>sc_id = 2, sc_name = ''Flo'', sc_party = JStr [], sc_manifesto = JStr ''M''\<rparr>]"
    unfolding cs
    by (simp add: saved_list_def kept_def nameless_def name_given_def saved_of_def db0_def
        value_defs)
  have k: "filter (\<lambda>c. \<not> nameless c) (elems (field (anon body_B_four) ''candidates'')) =
      [JObj [(''name'', JStr ''Eve''), (''party'', JStr ''Q'')],
       JObj [(''name'', JStr '' Flo ''), (''manifesto'', JStr ''M'')]]"
    unfolding cs by (simp add: nameless_def name_given_def value_defs)
  have k': "filter (\<lambda>c. \<not> nameless c) (elems (field (anon body_B_blank) ''candidates'')) = []"
    using n' by (simp add: filter_empty_conv list_all_iff)
  have s': "saved_list db0 [JObj [(''name'', JStr ''Eve'')]] =
      [\<lparr>sc_id = 1, sc_name = ''Eve'', sc_party = JStr [], sc_manifesto = JStr []\<rparr>]"
    by (simp add: saved_list_def kept_def nameless_def name_given_def saved_of_def db0_def
        value_defs)
  have i: "fst (allocation ev0 db0) = ''0000000000''"
    by (simp add: allocation_def short_id_def ev0_def db0_def short_id_defs)
  have rid: "r_id (new_row lib ev0 db0 (anon body_B_null)) = ''0000000000''"
    by (simp add: new_row_def i)
  have e0: "db_elections db0 = []" "db_candidates db0 = []"
    by (simp_all add: db0_def)
  note F = nameless_candidates_dropped_or_thrown[of lib ev0 db0 "anon body_B_four" "[]" JNull "[]"]
  note B = nameless_candidates_dropped_or_thrown[of lib ev0 db0 "anon body_B_blank" "[]" JNull "[]"]
  note N = nameless_candidates_dropped_or_thrown[of lib ev0 db0 "anon body_B_null"
    "[JObj [(''name'', JStr ''Eve'')]]" JNull "[JObj [(''name'', JStr ''Flo'')]]"]
  from F r w have
    "status (fst (createElectionB lib ev0 db0 (anon body_B_four))) = 201 \<and>
     js_get (js_get (json (fst (createElectionB lib ev0 db0 (anon body_B_four)))) ''election'')
       ''candidates'' =
       JArr (map (\<lambda>x. JObj [(''id'', JNum (Fin (of_nat (fst x)))),
                             (''name'', JStr (name_given (snd x))),
                             (''party'', jsonify (js_or (js_get (snd x) ''party'') (JStr []))),
                             (''manifesto'',
                              jsonify (js_or (js_get (snd x) ''manifesto'') (JStr [])))])
               (enumerate (Suc (length (db_candidates db0)))
                  (filter (\<lambda>c. \<not> nameless c) (elems (field (anon body_B_four) ''candidates''))))) \<and>
     db_candidates (snd (createElectionB lib ev0 db0 (anon body_B_four))) =
       db_candidates db0 @ map (row_of (fst (allocation ev0 db0)))
         (saved_list db0 (elems (field (anon body_B_four) ''candidates'')))"
    unfolding Let_def by blast
  then have
    "status (fst (createElectionB lib ev0 db0 (anon body_B_four))) = 201 \<and>
     js_get (js_get (json (fst (createElectionB lib ev0 db0 (anon body_B_four)))) ''election'')
       ''candidates'' =
       JArr [JObj [(''id'', JNum (Fin 1)), (''name'', JStr ''Eve''), (''party'', JStr ''Q''),
                 (''manifesto'', JStr [])],
           JObj [(''id'', JNum (Fin 2)), (''name'', JStr ''Flo''), (''party'', JStr []),
                 (''manifesto'', JStr ''M'')]] \<and>
     map cr_name (db_candidates (snd (createElectionB lib ev0 db0 (anon body_B_four)))) =
       [''Eve'', ''Flo'']"
    unfolding s k by (simp add: row_of_def db0_def name_given_def value_defs)
  moreover from B r w n' k' have
    "status (fst (createElectionB lib ev0 db0 (anon body_B_blank))) = 201 \<and>
     js_get (js_get (json (fst (createElectionB lib ev0 db0 (anon body_B_blank)))) ''election'')
       ''candidates'' = JArr [] \<and>
     db_candidates (snd (createElectionB lib ev0 db0 (anon body_B_blank))) = []"
    unfolding Let_def by (simp add: db0_def)
  moreover have "length (elems (field (anon body_B_blank) ''candidates'')) = 2"
    unfolding cs' by simp
  moreover from N r cs'' w' have
    "fst (createElectionB lib ev0 db0 (anon body_B_null)) = err 500 ''Internal server error'' \<and>
     db_elections (snd (createElectionB lib ev0 db0 (anon body_B_null))) =
       db_elections db0 @ [new_row lib ev0 db0 (anon body_B_null)] \<and>
     db_candidates (snd (createElectionB lib ev0 db0 (anon body_B_null))) =
       db_candidates db0 @ map (row_of (fst (allocation ev0 db0)))
         (saved_list db0 [JObj [(''name'', JStr ''Eve'')]])"
    by blast
  then have
    "fst (createElectionB lib ev0 db0 (anon body_B_null)) = err 500 ''Internal server error'' \<and>
     map r_id (db_elections (snd (createElectionB lib ev0 db0 (anon body_B_null)))) =
       [''0000000000''] \<and>
     map cr_name (db_candidates (snd (createElectionB lib ev0 db0 (anon body_B_null)))) = [''Eve'']"
    unfolding s' i by (simp add: row_of_def rid e0)
  ultimately show ?thesis using r w w' n n' cs'' by blast
qed


end
